theory Spec2Isabelle
  imports Complex_Main
begin

section \<open>JavaScript values, exceptions and the runtime\<close>

text \<open>
  The three services are TypeScript programs. A thrown exception is a value of type
  \<open>exn\<close>; a computation that may throw returns \<open>exn + 'a\<close> with \<open>Inl\<close> for the
  exception. \<open>Error m\<close> is \<^verbatim>\<open>new Error(m)\<close>, whose \<^verbatim>\<open>message\<close> is \<open>m\<close>; the other
  constructors are the errors raised by the language runtime and by the schema library
  (the latter with the paths of the fields that failed, the empty path for the root).
  Where a handler answers with \<^verbatim>\<open>e.message\<close>, the model keeps the exception itself.
\<close>

datatype exn =
  Error string
| SyntaxError
| TypeError
| RangeError
| ZodError "string list"

text \<open>
  A value produced by \<^verbatim>\<open>JSON.parse\<close>. A number is an IEEE double, modelled by the
  rational it denotes or by an infinity (the text 1e999 parses to one). A string is a list
  of code units below 256. An object is the list of its properties, and the value of
  a key is its first entry in the list. \<^verbatim>\<open>undefined\<close> is \<open>None\<close> of \<open>jsvalue\<close>.
\<close>

datatype jsnum = Finite rat | PosInfinity | NegInfinity

datatype json =
  JNull
| JBool bool
| JNum jsnum
| JStr string
| JArr "json list"
| JObj "(string \<times> json) list"

type_synonym jsvalue = "json option"

type_synonym bytes = "char list"

text \<open>Truthiness, as \<^verbatim>\<open>!v\<close>, \<^verbatim>\<open>a || b\<close> and \<^verbatim>\<open>a && b\<close> test it.\<close>

fun truthy :: "jsvalue \<Rightarrow> bool" where
  "truthy None = False"
| "truthy (Some JNull) = False"
| "truthy (Some (JBool b)) = b"
| "truthy (Some (JNum (Finite q))) = (q \<noteq> 0)"
| "truthy (Some (JNum PosInfinity)) = True"
| "truthy (Some (JNum NegInfinity)) = True"
| "truthy (Some (JStr s)) = (s \<noteq> [])"
| "truthy (Some (JArr xs)) = True"
| "truthy (Some (JObj kvs)) = True"

definition or_else :: "jsvalue \<Rightarrow> jsvalue \<Rightarrow> jsvalue" where
  "or_else a b = (if truthy a then a else b)"

text \<open>
  Property read \<^verbatim>\<open>v.k\<close>, for the keys this code reads (none of them is a property of a
  built-in prototype): a TypeError on \<^verbatim>\<open>null\<close> and \<^verbatim>\<open>undefined\<close>, the field of an
  object, \<^verbatim>\<open>undefined\<close> on every other value.
\<close>

fun get_prop :: "jsvalue \<Rightarrow> string \<Rightarrow> exn + jsvalue" where
  "get_prop None k = Inl TypeError"
| "get_prop (Some JNull) k = Inl TypeError"
| "get_prop (Some (JObj kvs)) k = Inr (map_of kvs k)"
| "get_prop (Some (JBool b)) k = Inr None"
| "get_prop (Some (JNum n)) k = Inr None"
| "get_prop (Some (JStr s)) k = Inr None"
| "get_prop (Some (JArr xs)) k = Inr None"

subsection \<open>BigInt\<close>

text \<open>
  \<^verbatim>\<open>BigInt(v)\<close> on a string follows the grammar StringIntegerLiteral of ECMAScript:
  white space is trimmed, the empty string is 0, and what is left is a run of decimal
  digits with an optional sign, or an unsigned binary, octal or hexadecimal literal.
  Anything else is a SyntaxError. The result is an unbounded integer.
\<close>

definition is_ws :: "char \<Rightarrow> bool" where
  "is_ws c = (c \<in> {CHR 0x09, CHR 0x0A, CHR 0x0B, CHR 0x0C, CHR 0x0D, CHR 0x20, CHR 0xA0})"

definition trim :: "string \<Rightarrow> string" where
  "trim s = rev (dropWhile is_ws (rev (dropWhile is_ws s)))"

definition digit_val :: "char \<Rightarrow> nat option" where
  "digit_val c =
     (let n = (of_char c :: nat) in
      if 48 \<le> n \<and> n \<le> 57 then Some (n - 48)
      else if 97 \<le> n \<and> n \<le> 102 then Some (n - 87)
      else if 65 \<le> n \<and> n \<le> 70 then Some (n - 55)
      else None)"

fun digits_from :: "nat \<Rightarrow> nat \<Rightarrow> string \<Rightarrow> nat option" where
  "digits_from base acc [] = Some acc"
| "digits_from base acc (c # cs) =
     (case digit_val c of
        None \<Rightarrow> None
      | Some d \<Rightarrow> if d < base then digits_from base (acc * base + d) cs else None)"

definition parse_digits :: "nat \<Rightarrow> string \<Rightarrow> nat option" where
  "parse_digits base ds = (if ds = [] then None else digits_from base 0 ds)"

fun StrIntegerLiteral :: "string \<Rightarrow> int option" where
  "StrIntegerLiteral (a # b # ds) =
     (if a = CHR ''0'' \<and> (b = CHR ''x'' \<or> b = CHR ''X'') then map_option int (parse_digits 16 ds)
      else if a = CHR ''0'' \<and> (b = CHR ''o'' \<or> b = CHR ''O'') then map_option int (parse_digits 8 ds)
      else if a = CHR ''0'' \<and> (b = CHR ''b'' \<or> b = CHR ''B'') then map_option int (parse_digits 2 ds)
      else if a = CHR ''+'' then map_option int (parse_digits 10 (b # ds))
      else if a = CHR ''-'' then map_option (\<lambda>n. - int n) (parse_digits 10 (b # ds))
      else map_option int (parse_digits 10 (a # b # ds)))"
| "StrIntegerLiteral ds = map_option int (parse_digits 10 ds)"

definition StringToBigInt :: "string \<Rightarrow> int option" where
  "StringToBigInt s = (let t = trim s in if t = [] then Some 0 else StrIntegerLiteral t)"

text \<open>\<^verbatim>\<open>BigInt(v)\<close> on a primitive value. A number must be integral.\<close>

fun BigInt_prim :: "jsvalue \<Rightarrow> exn + int" where
  "BigInt_prim None = Inl TypeError"
| "BigInt_prim (Some JNull) = Inl TypeError"
| "BigInt_prim (Some (JBool b)) = Inr (if b then 1 else 0)"
| "BigInt_prim (Some (JNum (Finite q))) = (if of_int \<lfloor>q\<rfloor> = q then Inr \<lfloor>q\<rfloor> else Inl RangeError)"
| "BigInt_prim (Some (JNum PosInfinity)) = Inl RangeError"
| "BigInt_prim (Some (JNum NegInfinity)) = Inl RangeError"
| "BigInt_prim (Some (JStr s)) =
     (case StringToBigInt s of None \<Rightarrow> Inl SyntaxError | Some i \<Rightarrow> Inr i)"
| "BigInt_prim (Some (JArr xs)) = Inl TypeError"
| "BigInt_prim (Some (JObj kvs)) = Inl TypeError"

subsection \<open>Library functions taken as parameters\<close>

text \<open>
  The decoded authorization, as far as this code reads it: the signed envelope holds a
  delegate action with a sender, a receiver and a sequence of actions. An action is a
  function call (method name and argument bytes), which is what the test for a truthy
  \<^verbatim>\<open>action.functionCall\<close> selects, or some other kind of action.
\<close>

datatype action =
  FunctionCall (methodName: string) (args: bytes)
| OtherAction

record DelegateAction =
  senderId :: string
  receiverId :: string
  actions :: "action list"

record SignedDelegate =
  delegateAction :: DelegateAction

record SignedDelegateAction =
  signedDelegate :: SignedDelegate

text \<open>
  What the services call and do not define:
  \<^item> \<open>decodeSignedDelegateAction\<close>, the decoder of the near-kit library (in the other
    copy of the service, \<^verbatim>\<open>JSON.parse(decodeB64(b))\<close>), which may throw;
  \<^item> \<open>JSON_parse_utf8\<close>, that is \<^verbatim>\<open>JSON.parse\<close> of \<^verbatim>\<open>Buffer.from(args)\<close> read as UTF-8,
    which throws on text that is not JSON;
  \<^item> \<open>ToPrimitive\<close>, the conversion of an array or object to a primitive value that
    \<^verbatim>\<open>BigInt\<close> applies first.
  Every theorem below holds for all such functions.
\<close>

record runtime =
  decodeSignedDelegateAction :: "jsvalue \<Rightarrow> exn + SignedDelegateAction"
  JSON_parse_utf8 :: "bytes \<Rightarrow> exn + json"
  ToPrimitive :: "json \<Rightarrow> exn + json"

definition BigInt :: "runtime \<Rightarrow> jsvalue \<Rightarrow> exn + int" where
  "BigInt rt v =
     (case v of
        Some (JArr xs) \<Rightarrow>
          (case ToPrimitive rt (JArr xs) of Inl e \<Rightarrow> Inl e | Inr p \<Rightarrow> BigInt_prim (Some p))
      | Some (JObj kvs) \<Rightarrow>
          (case ToPrimitive rt (JObj kvs) of Inl e \<Rightarrow> Inl e | Inr p \<Rightarrow> BigInt_prim (Some p))
      | _ \<Rightarrow> BigInt_prim v)"

section \<open>The verifier and settler service\<close>

subsection \<open>Schemas\<close>

text \<open>
  The two object schemas of the schema library. \<^verbatim>\<open>parse\<close> accepts an object whose
  fields pass their checks and returns the declared fields only; otherwise it throws an
  error that lists the failing fields. A string field must be present and a string, an
  optional one may be absent, the literal field must be exactly the literal.
\<close>

record PaymentPayload =
  scheme :: string
  network :: string
  asset :: string
  payTo :: string
  delegateB64 :: string
  invoiceId :: "string option"
  maxAmountRequired :: "string option"

record PaymentDetails =
  scheme :: string
  network :: string
  asset :: string
  payTo :: string
  amountExactAtomic :: string

fun z_string :: "jsvalue \<Rightarrow> bool" where
  "z_string (Some (JStr s)) = True"
| "z_string v = False"

fun z_string_optional :: "jsvalue \<Rightarrow> bool" where
  "z_string_optional None = True"
| "z_string_optional v = z_string v"

fun z_literal :: "string \<Rightarrow> jsvalue \<Rightarrow> bool" where
  "z_literal l (Some (JStr s)) = (s = l)"
| "z_literal l v = False"

fun the_string :: "jsvalue \<Rightarrow> string" where
  "the_string (Some (JStr s)) = s"
| "the_string v = []"

fun the_string_optional :: "jsvalue \<Rightarrow> string option" where
  "the_string_optional (Some (JStr s)) = Some s"
| "the_string_optional v = None"

definition issue :: "bool \<Rightarrow> string \<Rightarrow> string list" where
  "issue ok path = (if ok then [] else [path])"

definition PaymentPayload_issues :: "(string \<times> json) list \<Rightarrow> string list" where
  "PaymentPayload_issues kvs =
     issue (z_literal ''near-delegate-exact'' (map_of kvs ''scheme'')) ''scheme'' @
     issue (z_string (map_of kvs ''network'')) ''network'' @
     issue (z_string (map_of kvs ''asset'')) ''asset'' @
     issue (z_string (map_of kvs ''payTo'')) ''payTo'' @
     issue (z_string (map_of kvs ''delegateB64'')) ''delegateB64'' @
     issue (z_string_optional (map_of kvs ''invoiceId'')) ''invoiceId'' @
     issue (z_string_optional (map_of kvs ''maxAmountRequired'')) ''maxAmountRequired''"

fun PaymentPayload_parse :: "jsvalue \<Rightarrow> exn + PaymentPayload" where
  "PaymentPayload_parse (Some (JObj kvs)) =
     (if PaymentPayload_issues kvs = [] then
        Inr \<lparr>PaymentPayload.scheme = the_string (map_of kvs ''scheme''),
             PaymentPayload.network = the_string (map_of kvs ''network''),
             PaymentPayload.asset = the_string (map_of kvs ''asset''),
             PaymentPayload.payTo = the_string (map_of kvs ''payTo''),
             delegateB64 = the_string (map_of kvs ''delegateB64''),
             invoiceId = the_string_optional (map_of kvs ''invoiceId''),
             maxAmountRequired = the_string_optional (map_of kvs ''maxAmountRequired'')\<rparr>
      else Inl (ZodError (PaymentPayload_issues kvs)))"
| "PaymentPayload_parse v = Inl (ZodError [[]])"

definition PaymentDetails_issues :: "(string \<times> json) list \<Rightarrow> string list" where
  "PaymentDetails_issues kvs =
     issue (z_literal ''near-delegate-exact'' (map_of kvs ''scheme'')) ''scheme'' @
     issue (z_string (map_of kvs ''network'')) ''network'' @
     issue (z_string (map_of kvs ''asset'')) ''asset'' @
     issue (z_string (map_of kvs ''payTo'')) ''payTo'' @
     issue (z_string (map_of kvs ''amountExactAtomic'')) ''amountExactAtomic''"

fun PaymentDetails_parse :: "jsvalue \<Rightarrow> exn + PaymentDetails" where
  "PaymentDetails_parse (Some (JObj kvs)) =
     (if PaymentDetails_issues kvs = [] then
        Inr \<lparr>PaymentDetails.scheme = the_string (map_of kvs ''scheme''),
             PaymentDetails.network = the_string (map_of kvs ''network''),
             PaymentDetails.asset = the_string (map_of kvs ''asset''),
             PaymentDetails.payTo = the_string (map_of kvs ''payTo''),
             PaymentDetails.amountExactAtomic = the_string (map_of kvs ''amountExactAtomic'')\<rparr>
      else Inl (ZodError (PaymentDetails_issues kvs)))"
| "PaymentDetails_parse v = Inl (ZodError [[]])"

subsection \<open>verifyPayment\<close>

text \<open>
  \<^verbatim>\<open>parsed.receiver_id || parsed.receiverId\<close> and \<^verbatim>\<open>BigInt(parsed.amount || s)\<close> with
  the string 0 for \<^verbatim>\<open>s\<close>: the two expressions that read the parsed arguments of a
  transfer call.
\<close>

definition recipient_of :: "json \<Rightarrow> exn + jsvalue" where
  "recipient_of parsed =
     (case get_prop (Some parsed) ''receiver_id'' of
        Inl e \<Rightarrow> Inl e
      | Inr r \<Rightarrow> if truthy r then Inr r else get_prop (Some parsed) ''receiverId'')"

definition amount_of :: "runtime \<Rightarrow> json \<Rightarrow> exn + int" where
  "amount_of rt parsed =
     (case get_prop (Some parsed) ''amount'' of
        Inl e \<Rightarrow> Inl e
      | Inr amount \<Rightarrow> BigInt rt (or_else amount (Some (JStr ''0''))))"

text \<open>
  The body of the loop over the actions: \<open>found\<close> is \<^verbatim>\<open>foundAmount\<close> before the
  action, the result is \<^verbatim>\<open>foundAmount\<close> after it, or the exception that leaves the loop.
\<close>

fun scan_action :: "runtime \<Rightarrow> string \<Rightarrow> int option \<Rightarrow> action \<Rightarrow> exn + int option" where
  "scan_action rt seller found OtherAction = Inr found"
| "scan_action rt seller found (FunctionCall m a) =
     (if m = ''ft_transfer'' \<or> m = ''ft_transfer_call'' then
        (case JSON_parse_utf8 rt a of
           Inl e \<Rightarrow> Inl e
         | Inr parsed \<Rightarrow>
             (case recipient_of parsed of
                Inl e \<Rightarrow> Inl e
              | Inr recipient \<Rightarrow>
                  if recipient = Some (JStr seller) then
                    (case amount_of rt parsed of
                       Inl e \<Rightarrow> Inl e
                     | Inr n \<Rightarrow> Inr (Some n))
                  else Inr found))
      else Inr found)"

fun scan_actions :: "runtime \<Rightarrow> string \<Rightarrow> int option \<Rightarrow> action list \<Rightarrow> exn + int option" where
  "scan_actions rt seller found [] = Inr found"
| "scan_actions rt seller found (a # rest) =
     (case scan_action rt seller found a of
        Inl e \<Rightarrow> Inl e
      | Inr found' \<Rightarrow> scan_actions rt seller found' rest)"

definition verifyPayment ::
  "runtime \<Rightarrow> PaymentPayload \<Rightarrow> PaymentDetails \<Rightarrow> exn + SignedDelegateAction" where
  "verifyPayment rt payload required =
     (if PaymentPayload.asset payload \<noteq> PaymentDetails.asset required then
        Inl (Error ''Asset mismatch'')
      else if PaymentPayload.payTo payload \<noteq> PaymentDetails.payTo required then
        Inl (Error ''Recipient mismatch'')
      else if PaymentPayload.network payload \<noteq> PaymentDetails.network required then
        Inl (Error ''Network mismatch'')
      else
        (case decodeSignedDelegateAction rt (Some (JStr (delegateB64 payload))) of
           Inl e \<Rightarrow> Inl e
         | Inr delegate \<Rightarrow>
             if receiverId (delegateAction (signedDelegate delegate)) \<noteq> PaymentDetails.asset required
             then Inl (Error ''Delegate must target token contract'')
             else
               (case BigInt rt (Some (JStr (PaymentDetails.amountExactAtomic required))) of
                  Inl e \<Rightarrow> Inl e
                | Inr requiredAmount \<Rightarrow>
                    (case scan_actions rt (PaymentDetails.payTo required) None
                            (actions (delegateAction (signedDelegate delegate))) of
                       Inl e \<Rightarrow> Inl e
                     | Inr None \<Rightarrow> Inl (Error ''No transfer to seller found'')
                     | Inr (Some foundAmount) \<Rightarrow>
                         if foundAmount \<noteq> requiredAmount then Inl (Error ''Amount mismatch'')
                         else Inr delegate))))"


subsection \<open>The two routes\<close>

text \<open>
  The argument of a route is what \<^verbatim>\<open>await c.req.json()\<close> yields: the parsed body, or
  the exception of a body that is not JSON. Each handler is one \<^verbatim>\<open>try\<close> block whose
  \<^verbatim>\<open>catch\<close> answers with status 400; a reply without explicit status has status 200.
\<close>

datatype verify_reply =
  Valid (sender: string)
| Invalid (error: exn)

definition verify_try :: "runtime \<Rightarrow> exn + json \<Rightarrow> exn + SignedDelegateAction" where
  "verify_try rt req_json =
     (case req_json of
        Inl e \<Rightarrow> Inl e
      | Inr j \<Rightarrow>
          (case get_prop (Some j) ''paymentPayload'' of
             Inl e \<Rightarrow> Inl e
           | Inr paymentPayload \<Rightarrow>
               (case get_prop (Some j) ''paymentDetails'' of
                  Inl e \<Rightarrow> Inl e
                | Inr paymentDetails \<Rightarrow>
                    (case PaymentPayload_parse paymentPayload of
                       Inl e \<Rightarrow> Inl e
                     | Inr payment \<Rightarrow>
                         (case PaymentDetails_parse paymentDetails of
                            Inl e \<Rightarrow> Inl e
                          | Inr required \<Rightarrow> verifyPayment rt payment required)))))"

definition verify_route :: "runtime \<Rightarrow> exn + json \<Rightarrow> nat \<times> verify_reply" where
  "verify_route rt req_json =
     (case verify_try rt req_json of
        Inr delegate \<Rightarrow> (200, Valid (senderId (delegateAction (signedDelegate delegate))))
      | Inl e \<Rightarrow> (400, Invalid e))"

text \<open>
  The environment of a process maps variable names to strings. \<^verbatim>\<open>!X\<close> holds of a
  variable that is unset or empty.
\<close>

type_synonym process_env = "string \<Rightarrow> string option"

definition unset :: "process_env \<Rightarrow> string \<Rightarrow> bool" where
  "unset env x = (env x = None \<or> env x = Some [])"

definition env_or :: "process_env \<Rightarrow> string \<Rightarrow> string \<Rightarrow> string" where
  "env_or env x dflt = (case env x of None \<Rightarrow> dflt | Some v \<Rightarrow> v)"

definition facilitator_startup :: "process_env \<Rightarrow> exn + unit" where
  "facilitator_startup env =
     (if unset env ''TOKEN_ACCOUNT_ID'' \<or> unset env ''SELLER_ACCOUNT_ID''
         \<or> unset env ''RELAYER_ACCOUNT_ID'' \<or> unset env ''RELAYER_PRIVATE_KEY''
      then Inl (Error ''Missing required env vars in facilitator (TOKEN_ACCOUNT_ID, SELLER_*, RELAYER_*)'')
      else Inr ())"

record Near =
  rpcUrl :: string
  networkId :: string
  privateKey :: string
  defaultSignerId :: string

definition getRelayer :: "process_env \<Rightarrow> exn + Near" where
  "getRelayer env =
     (if unset env ''RELAYER_ACCOUNT_ID'' \<or> unset env ''RELAYER_PRIVATE_KEY''
      then Inl (Error ''RELAYER credentials not configured'')
      else Inr \<lparr>rpcUrl = env_or env ''NEAR_RPC'' ''https://rpc.testnet.near.org'',
                networkId = ''testnet'',
                privateKey = env_or env ''RELAYER_PRIVATE_KEY'' [],
                defaultSignerId = env_or env ''RELAYER_ACCOUNT_ID'' []\<rparr>)"

text \<open>
  The ledger is a state of some type \<open>'l\<close>. The only operation on it is \<open>submit\<close>, the
  library's \<^verbatim>\<open>relayer.transaction(id).signedDelegateAction(d).send()\<close> on the client
  built from the \<open>Near\<close> configuration: it returns the outcome or throws, and leaves
  the ledger in a new state.
\<close>

datatype outcome = Outcome (transaction_hash: string) (transaction_outcome_id: string) (outcome_status: json)

datatype settlement = Settlement (ok: bool) (txHash: string) (blockHash: string) (status: json)

type_synonym 'l submit = "Near \<Rightarrow> string \<Rightarrow> SignedDelegateAction \<Rightarrow> 'l \<Rightarrow> (exn + outcome) \<times> 'l"

definition settlePayment ::
  "process_env \<Rightarrow> 'l submit \<Rightarrow> SignedDelegateAction \<Rightarrow> 'l \<Rightarrow> (exn + settlement) \<times> 'l" where
  "settlePayment env submit delegate l =
     (case getRelayer env of
        Inl e \<Rightarrow> (Inl e, l)
      | Inr relayer \<Rightarrow>
          if unset env ''RELAYER_ACCOUNT_ID'' then (Inl (Error ''RELAYER_ACCOUNT_ID not set''), l)
          else
            (case submit relayer (env_or env ''RELAYER_ACCOUNT_ID'' []) delegate l of
               (Inl e, l') \<Rightarrow> (Inl e, l')
             | (Inr result, l') \<Rightarrow>
                 (Inr (Settlement True (transaction_hash result) (transaction_outcome_id result)
                         (outcome_status result)), l')))"

datatype settle_reply =
  Settled settlement
| NotSettled (error: exn)

definition settle_route ::
  "runtime \<Rightarrow> process_env \<Rightarrow> 'l submit \<Rightarrow> exn + json \<Rightarrow> 'l \<Rightarrow> (nat \<times> settle_reply) \<times> 'l" where
  "settle_route rt env submit req_json l =
     (case req_json of
        Inl e \<Rightarrow> ((400, NotSettled e), l)
      | Inr j \<Rightarrow>
          (case get_prop (Some j) ''delegateB64'' of
             Inl e \<Rightarrow> ((400, NotSettled e), l)
           | Inr b \<Rightarrow>
               (case decodeSignedDelegateAction rt b of
                  Inl e \<Rightarrow> ((400, NotSettled e), l)
                | Inr delegate \<Rightarrow>
                    (case settlePayment env submit delegate l of
                       (Inl e, l') \<Rightarrow> ((400, NotSettled e), l')
                     | (Inr s, l') \<Rightarrow> ((200, Settled s), l')))))"

text \<open>The service: one request, on one of its two routes, against the ledger.\<close>

datatype facilitator_request =
  PostVerify "exn + json"
| PostSettle "exn + json"

datatype facilitator_reply =
  VerifyReply verify_reply
| SettleReply settle_reply

fun facilitator ::
  "runtime \<Rightarrow> process_env \<Rightarrow> 'l submit \<Rightarrow> facilitator_request \<Rightarrow> 'l \<Rightarrow> (nat \<times> facilitator_reply) \<times> 'l" where
  "facilitator rt env submit (PostVerify b) l =
     (case verify_route rt b of (st, r) \<Rightarrow> ((st, VerifyReply r), l))"
| "facilitator rt env submit (PostSettle b) l =
     (case settle_route rt env submit b l of ((st, r), l') \<Rightarrow> ((st, SettleReply r), l'))"

section \<open>The resource server\<close>

definition seller_startup :: "process_env \<Rightarrow> exn + unit" where
  "seller_startup env =
     (if unset env ''TOKEN_ACCOUNT_ID'' \<or> unset env ''SELLER_ACCOUNT_ID''
      then Inl (Error ''Missing TOKEN_ACCOUNT_ID or SELLER_ACCOUNT_ID in seller env'')
      else Inr ())"

record AcceptsEntry =
  scheme :: string
  network :: string
  asset :: string
  payTo :: string
  amountExactAtomic :: string
  maxTimeoutSeconds :: nat
  mimeType :: string
  resource :: string
  description :: string

text \<open>
  What the handler calls and does not define. The world \<open>'w\<close> is everything outside
  the process: the random source, the clock, and the verifier and settler service
  behind \<^verbatim>\<open>fetch\<close>.
  \<^item> \<open>price_text p\<close> is \<^verbatim>\<open>(Number(p) / 1e6).toFixed(6)\<close>, floating-point formatting;
  \<^item> \<open>decode_x_payment h\<close> is \<^verbatim>\<open>JSON.parse\<close> of the base64-decoded header;
  \<^item> \<open>encode_receipt s\<close> is the base64 text of \<^verbatim>\<open>JSON.stringify(s)\<close>;
  \<^item> \<open>post_verify\<close> and \<open>post_settle\<close> are the two \<^verbatim>\<open>fetch\<close> calls, each with the
    \<^verbatim>\<open>json()\<close> of its response: the parsed reply, or the exception of a failed call.
\<close>

record 'w seller_io =
  price_text :: "string \<Rightarrow> string"
  decode_x_payment :: "string \<Rightarrow> exn + json"
  encode_receipt :: "json \<Rightarrow> string"
  randomUUID :: "'w \<Rightarrow> string \<times> 'w"
  Date_now :: "'w \<Rightarrow> int \<times> 'w"
  post_verify :: "json \<Rightarrow> AcceptsEntry \<Rightarrow> 'w \<Rightarrow> (exn + json) \<times> 'w"
  post_settle :: "jsvalue \<Rightarrow> 'w \<Rightarrow> (exn + json) \<times> 'w"

text \<open>
  The handlers exist only when \<open>seller_startup\<close> has passed, so that the two account
  variables are set when \<open>buildAccepts\<close> reads them.
\<close>

definition buildAccepts :: "(string \<Rightarrow> string) \<Rightarrow> process_env \<Rightarrow> string \<Rightarrow> AcceptsEntry list" where
  "buildAccepts fmt env res =
     [\<lparr>scheme = ''near-delegate-exact'',
       network = env_or env ''NEAR_NETWORK'' ''testnet'',
       asset = env_or env ''TOKEN_ACCOUNT_ID'' [],
       payTo = env_or env ''SELLER_ACCOUNT_ID'' [],
       amountExactAtomic = env_or env ''PRICE_ATOMIC'' ''1000'',
       maxTimeoutSeconds = 60,
       mimeType = ''application/json'',
       resource = res,
       description =
         ''Weather for '' @ fmt (env_or env ''PRICE_ATOMIC'' ''1000'') @ '' (assuming 6 decimals)''\<rparr>]"

datatype invoice = Invoice (invoice_id: string) (createdAt: int)

datatype details = Reported jsvalue | Caught exn

record Report =
  weather :: string
  temperatureF :: nat

record Paid =
  asset :: string
  amount :: string
  tx :: jsvalue

datatype seller_body =
  PaymentRequired (message: string) (accepts: "AcceptsEntry list") (invoice_of: invoice)
| Failure (error: string) (details_of: details)
| Delivered (report: Report) (paid: Paid)

record response =
  status :: nat
  headers :: "(string \<times> string) list"
  body :: seller_body

definition caught :: "exn \<Rightarrow> response" where
  "caught e = \<lparr>status = 402, headers = [], body = Failure ''PAYMENT_ERROR'' (Caught e)\<rparr>"

text \<open>
  The paid branch of the handler, its \<^verbatim>\<open>try\<close> block: \<open>h\<close> is the header,
  \<open>required\<close> the first entry of \<^verbatim>\<open>buildAccepts(c.req.url)\<close>.
\<close>

definition pay :: "'w seller_io \<Rightarrow> process_env \<Rightarrow> AcceptsEntry \<Rightarrow> string \<Rightarrow> 'w \<Rightarrow> response \<times> 'w" where
  "pay io env required h w =
     (case decode_x_payment io h of
        Inl e \<Rightarrow> (caught e, w)
      | Inr payment \<Rightarrow>
          (case post_verify io payment required w of
             (Inl e, w1) \<Rightarrow> (caught e, w1)
           | (Inr verification, w1) \<Rightarrow>
               (case get_prop (Some verification) ''valid'' of
                  Inl e \<Rightarrow> (caught e, w1)
                | Inr valid \<Rightarrow>
                    if \<not> truthy valid then
                      (\<lparr>status = 402, headers = [],
                        body = Failure ''PAYMENT_INVALID''
                                 (Reported (case get_prop (Some verification) ''error'' of
                                              Inl e \<Rightarrow> None | Inr v \<Rightarrow> v))\<rparr>, w1)
                    else
                      (case get_prop (Some payment) ''delegateB64'' of
                         Inl e \<Rightarrow> (caught e, w1)
                       | Inr b \<Rightarrow>
                           (case post_settle io b w1 of
                              (Inl e, w2) \<Rightarrow> (caught e, w2)
                            | (Inr settlement, w2) \<Rightarrow>
                                (case get_prop (Some settlement) ''ok'' of
                                   Inl e \<Rightarrow> (caught e, w2)
                                 | Inr ok_field \<Rightarrow>
                                     if \<not> truthy ok_field then
                                       (\<lparr>status = 402, headers = [],
                                         body = Failure ''PAYMENT_NOT_SETTLED''
                                                  (Reported (case get_prop (Some settlement) ''error'' of
                                                               Inl e \<Rightarrow> None | Inr v \<Rightarrow> v))\<rparr>, w2)
                                     else
                                       (\<lparr>status = 200,
                                         headers = [(''x-payment-response'', encode_receipt io settlement)],
                                         body = Delivered
                                           \<lparr>weather = ''sunny'', temperatureF = 70\<rparr>
                                           \<lparr>asset = env_or env ''TOKEN_ACCOUNT_ID'' [],
                                            amount = AcceptsEntry.amountExactAtomic required,
                                            tx = (case get_prop (Some settlement) ''txHash'' of
                                                    Inl e \<Rightarrow> None | Inr v \<Rightarrow> v)\<rparr>\<rparr>, w2)))))))"

text \<open>
  The handler of \<^verbatim>\<open>GET /weather\<close>: \<open>url\<close> is \<^verbatim>\<open>c.req.url\<close> and \<open>x_payment\<close> the
  header of that name, \<open>None\<close> when the request has none.
\<close>

definition get_weather :: "'w seller_io \<Rightarrow> process_env \<Rightarrow> string \<Rightarrow> string option \<Rightarrow> 'w \<Rightarrow> response \<times> 'w" where
  "get_weather io env url x_payment w =
     (if x_payment = None \<or> x_payment = Some [] then
        (case randomUUID io w of
           (uuid, w1) \<Rightarrow>
             (case Date_now io w1 of
                (now, w2) \<Rightarrow>
                  (\<lparr>status = 402, headers = [],
                    body = PaymentRequired ''Payment Required''
                             (buildAccepts (price_text io) env url) (Invoice uuid now)\<rparr>, w2)))
      else
        pay io env (hd (buildAccepts (price_text io) env url)) (the x_payment) w)"

section \<open>The transfer that decides\<close>

text \<open>
  The words of the specification about the scan. \<open>transfer_to rt seller a\<close>: the action
  \<open>a\<close> is a call of one of the two transfer methods whose arguments parse and name
  \<open>seller\<close> as the recipient. \<open>transfer_amount rt a\<close>: the amount of such a call.
\<close>

fun transfer_to :: "runtime \<Rightarrow> string \<Rightarrow> action \<Rightarrow> bool" where
  "transfer_to rt seller OtherAction = False"
| "transfer_to rt seller (FunctionCall m a) =
     ((m = ''ft_transfer'' \<or> m = ''ft_transfer_call'') \<and>
      (case JSON_parse_utf8 rt a of
         Inl e \<Rightarrow> False
       | Inr parsed \<Rightarrow> recipient_of parsed = Inr (Some (JStr seller))))"

fun transfer_amount :: "runtime \<Rightarrow> action \<Rightarrow> exn + int" where
  "transfer_amount rt OtherAction = Inl TypeError"
| "transfer_amount rt (FunctionCall m a) =
     (case JSON_parse_utf8 rt a of Inl e \<Rightarrow> Inl e | Inr parsed \<Rightarrow> amount_of rt parsed)"

section \<open>Example data\<close>

text \<open>
  A runtime for the examples. Its parser knows the texts of \<open>demo_texts\<close>, on which it
  agrees with the real one, and rejects any other text; its decoder knows the blobs of
  \<open>demo_blobs\<close> and throws on any other value.
\<close>

definition quoted :: "string \<Rightarrow> string" where
  "quoted s = CHR 0x22 # s @ [CHR 0x22]"

definition transfer_text :: "string \<Rightarrow> string \<Rightarrow> bytes" where
  "transfer_text receiver amt =
     ''{'' @ quoted ''receiver_id'' @ '':'' @ quoted receiver @ '','' @
     quoted ''amount'' @ '':'' @ quoted amt @ ''}''"

definition transfer_json :: "string \<Rightarrow> string \<Rightarrow> json" where
  "transfer_json receiver amt = JObj [(''receiver_id'', JStr receiver), (''amount'', JStr amt)]"

definition bare_text :: "string \<Rightarrow> bytes" where
  "bare_text receiver = ''{'' @ quoted ''receiver_id'' @ '':'' @ quoted receiver @ ''}''"

definition demo_texts :: "(bytes \<times> json) list" where
  "demo_texts =
     [(transfer_text ''seller'' ''1000'', transfer_json ''seller'' ''1000''),
      (transfer_text ''seller'' ''999'', transfer_json ''seller'' ''999''),
      (transfer_text ''seller'' ''5'', transfer_json ''seller'' ''5''),
      (transfer_text ''seller'' ''7'', transfer_json ''seller'' ''7''),
      (transfer_text ''seller'' ''-5'', transfer_json ''seller'' ''-5''),
      (transfer_text ''seller'' [], transfer_json ''seller'' []),
      (bare_text ''seller'', JObj [(''receiver_id'', JStr ''seller'')])]"

definition demo_parse :: "bytes \<Rightarrow> exn + json" where
  "demo_parse bs = (case map_of demo_texts bs of None \<Rightarrow> Inl SyntaxError | Some j \<Rightarrow> Inr j)"

definition delegate_with :: "action list \<Rightarrow> SignedDelegateAction" where
  "delegate_with acts =
     \<lparr>signedDelegate = \<lparr>delegateAction = \<lparr>senderId = ''buyer'', receiverId = ''tok'', actions = acts\<rparr>\<rparr>\<rparr>"

definition five_then_seven :: "action list" where
  "five_then_seven =
     [FunctionCall ''ft_transfer'' (transfer_text ''seller'' ''5''),
      OtherAction,
      FunctionCall ''ft_transfer_call'' (transfer_text ''seller'' ''7'')]"

definition demo_blobs :: "(string \<times> SignedDelegateAction) list" where
  "demo_blobs =
     [(''pay1000'', delegate_with [FunctionCall ''ft_transfer'' (transfer_text ''seller'' ''1000'')]),
      (''pay999'', delegate_with [FunctionCall ''ft_transfer'' (transfer_text ''seller'' ''999'')]),
      (''pay5then7'', delegate_with five_then_seven),
      (''payminus5'', delegate_with [FunctionCall ''ft_transfer'' (transfer_text ''seller'' ''-5'')]),
      (''paybare'', delegate_with [FunctionCall ''ft_transfer'' (bare_text ''seller'')])]"

definition demo_decode :: "jsvalue \<Rightarrow> exn + SignedDelegateAction" where
  "demo_decode v =
     (case v of
        Some (JStr b) \<Rightarrow>
          (case map_of demo_blobs b of
             None \<Rightarrow> Inl (Error ''Failed to decode signed delegate action'')
           | Some d \<Rightarrow> Inr d)
      | _ \<Rightarrow> Inl TypeError)"

definition demo_runtime :: runtime where
  "demo_runtime =
     \<lparr>decodeSignedDelegateAction = demo_decode, JSON_parse_utf8 = demo_parse,
      ToPrimitive = (\<lambda>j. Inl TypeError)\<rparr>"

definition payload_with :: "string \<Rightarrow> PaymentPayload" where
  "payload_with blob =
     \<lparr>PaymentPayload.scheme = ''near-delegate-exact'', PaymentPayload.network = ''testnet'',
      PaymentPayload.asset = ''tok'', PaymentPayload.payTo = ''seller'', delegateB64 = blob,
      invoiceId = None, maxAmountRequired = None\<rparr>"

definition details_with :: "string \<Rightarrow> PaymentDetails" where
  "details_with amt =
     \<lparr>PaymentDetails.scheme = ''near-delegate-exact'', PaymentDetails.network = ''testnet'',
      PaymentDetails.asset = ''tok'', PaymentDetails.payTo = ''seller'', PaymentDetails.amountExactAtomic = amt\<rparr>"

text \<open>Request bodies, an environment and a ledger that records what is submitted.\<close>

definition payload_fields :: "string \<Rightarrow> (string \<times> json) list" where
  "payload_fields blob =
     [(''scheme'', JStr ''near-delegate-exact''), (''network'', JStr ''testnet''),
      (''asset'', JStr ''tok''), (''payTo'', JStr ''seller''), (''delegateB64'', JStr blob)]"

definition details_fields :: "string \<Rightarrow> (string \<times> json) list" where
  "details_fields amt =
     [(''scheme'', JStr ''near-delegate-exact''), (''network'', JStr ''testnet''),
      (''asset'', JStr ''tok''), (''payTo'', JStr ''seller''), (''amountExactAtomic'', JStr amt)]"

definition verify_request :: "(string \<times> json) list \<Rightarrow> (string \<times> json) list \<Rightarrow> json" where
  "verify_request kvs dkvs = JObj [(''paymentPayload'', JObj kvs), (''paymentDetails'', JObj dkvs)]"

definition settle_request :: "string \<Rightarrow> json" where
  "settle_request blob = JObj [(''delegateB64'', JStr blob)]"

definition demo_env :: process_env where
  "demo_env =
     map_of [(''TOKEN_ACCOUNT_ID'', ''tok''), (''SELLER_ACCOUNT_ID'', ''seller''),
             (''RELAYER_ACCOUNT_ID'', ''relayer''), (''RELAYER_PRIVATE_KEY'', ''ed25519:key'')]"

definition demo_submit :: "SignedDelegateAction list submit" where
  "demo_submit relayer signer d l = (Inr (Outcome ''tx1'' ''out1'' (JStr ''SuccessValue'')), l @ [d])"

text \<open>
  A world for the resource server: a log of the calls made. Its verifier rejects the
  payment whose blob is \<open>bad\<close>, its settler settles the blob \<open>good\<close> only.
\<close>

definition demo_io :: "string list seller_io" where
  "demo_io =
     \<lparr>price_text = (\<lambda>p. ''0.001000''),
      decode_x_payment = (\<lambda>h. if h = ''junk'' then Inl SyntaxError
                                 else Inr (JObj [(''delegateB64'', JStr h)])),
      encode_receipt = (\<lambda>s. ''receipt''),
      randomUUID = (\<lambda>w. (''uuid-'' @ concat w, w @ [''u''])),
      Date_now = (\<lambda>w. (int (length w), w @ [''t''])),
      post_verify = (\<lambda>payment required w.
         (if payment = JObj [(''delegateB64'', JStr ''bad'')]
          then Inr (JObj [(''valid'', JBool False), (''error'', JStr ''Amount mismatch'')])
          else Inr (JObj [(''valid'', JBool True), (''sender'', JStr ''buyer'')]), w @ [''verify''])),
      post_settle = (\<lambda>b w.
         (if b = Some (JStr ''good'')
          then Inr (JObj [(''ok'', JBool True), (''txHash'', JStr ''tx1'')])
          else Inr (JObj [(''ok'', JBool False), (''error'', JStr ''expired'')]), w @ [''settle'']))\<rparr>"

section \<open>Properties of the scan\<close>

lemmas demo_defs = five_then_seven_def quoted_def transfer_text_def transfer_json_def bare_text_def demo_texts_def
  demo_parse_def delegate_with_def demo_blobs_def demo_decode_def demo_runtime_def payload_with_def
  details_with_def

lemmas route_defs = payload_fields_def details_fields_def verify_request_def settle_request_def
  demo_env_def demo_submit_def

lemmas js_defs = StringToBigInt_def trim_def is_ws_def digit_val_def parse_digits_def BigInt_def
  recipient_of_def amount_of_def or_else_def

lemma scan_action_match:
  "transfer_to rt s a \<Longrightarrow>
   scan_action rt s f a = (case transfer_amount rt a of Inl e \<Rightarrow> Inl e | Inr n \<Rightarrow> Inr (Some n))"
  by (cases a) (auto split: sum.splits)

lemma scan_action_other:
  "\<not> transfer_to rt s a \<Longrightarrow> \<not> isl (scan_action rt s None a) \<Longrightarrow> scan_action rt s f a = Inr f"
  by (cases a) (auto split: sum.splits if_splits)

lemma scan_actions_last:
  "\<forall>a \<in> set acts. \<not> isl (scan_action rt s None a) \<Longrightarrow>
   scan_actions rt s f acts =
     Inr (case filter (transfer_to rt s) acts of
            [] \<Rightarrow> f
          | m # ms \<Rightarrow> Some (projr (transfer_amount rt (last (m # ms)))))"
proof (induction acts arbitrary: f)
  case Nil
  then show ?case by simp
next
  case (Cons a acts)
  have rest: "\<forall>x \<in> set acts. \<not> isl (scan_action rt s None x)"
    using Cons.prems by simp
  have here: "\<not> isl (scan_action rt s None a)"
    using Cons.prems by simp
  show ?case
  proof (cases "transfer_to rt s a")
    case True
    with here obtain n where n: "transfer_amount rt a = Inr n"
      by (cases "transfer_amount rt a") (auto simp: scan_action_match)
    with True have step: "scan_action rt s f a = Inr (Some n)"
      by (simp add: scan_action_match)
    show ?thesis
      using True n step Cons.IH [OF rest, of "Some n"]
      by (auto split: list.splits)
  next
    case False
    from False here have step: "scan_action rt s f a = Inr f"
      by (rule scan_action_other)
    show ?thesis
      using False step Cons.IH [OF rest, of f] by simp
  qed
qed

lemma scan_matched_amount:
  assumes "\<forall>a \<in> set acts. \<not> isl (scan_action rt s None a)"
    and "filter (transfer_to rt s) acts \<noteq> []"
  shows "\<not> isl (transfer_amount rt (last (filter (transfer_to rt s) acts)))"
proof -
  let ?a = "last (filter (transfer_to rt s) acts)"
  have "?a \<in> set (filter (transfer_to rt s) acts)"
    using assms(2) by (rule last_in_set)
  then have m: "transfer_to rt s ?a" and i: "?a \<in> set acts"
    by auto
  from i assms(1) have "\<not> isl (scan_action rt s None ?a)" by blast
  with m show ?thesis
    by (auto simp: scan_action_match split: sum.splits)
qed


lemma BigInt_zero: "BigInt rt (Some (JStr ''0'')) = Inr 0"
  by (simp add: js_defs)

lemma verifyPayment_after_checks:
  assumes "PaymentPayload.asset p = PaymentDetails.asset r"
    and "PaymentPayload.payTo p = PaymentDetails.payTo r"
    and "PaymentPayload.network p = PaymentDetails.network r"
    and "decodeSignedDelegateAction rt (Some (JStr (delegateB64 p))) = Inr d"
    and "receiverId (delegateAction (signedDelegate d)) = PaymentDetails.asset r"
  shows "verifyPayment rt p r =
     (case BigInt rt (Some (JStr (PaymentDetails.amountExactAtomic r))) of
        Inl e \<Rightarrow> Inl e
      | Inr requiredAmount \<Rightarrow>
          (case scan_actions rt (PaymentDetails.payTo r) None
                  (actions (delegateAction (signedDelegate d))) of
             Inl e \<Rightarrow> Inl e
           | Inr None \<Rightarrow> Inl (Error ''No transfer to seller found'')
           | Inr (Some foundAmount) \<Rightarrow>
               if foundAmount \<noteq> requiredAmount then Inl (Error ''Amount mismatch'')
               else Inr d))"
  using assms by (simp add: verifyPayment_def)

lemma demo_fields:
  "PaymentPayload.asset (payload_with b) = PaymentDetails.asset (details_with a)"
  "PaymentPayload.payTo (payload_with b) = PaymentDetails.payTo (details_with a)"
  "PaymentPayload.network (payload_with b) = PaymentDetails.network (details_with a)"
  "receiverId (delegateAction (signedDelegate (delegate_with acts))) = PaymentDetails.asset (details_with a)"
  by (simp_all add: demo_defs)

section \<open>Validation order\<close>

text \<open>
  C2. The asset, the recipient and the network of the payload are compared with the
  requirements in this order, and the first one that differs decides the error: a wrong
  asset gives the asset error; a right asset and a wrong recipient give the recipient
  error; a right asset and recipient and a wrong network give the network error. This
  holds whatever the rest of the payload is and for every runtime, also one whose
  decoder throws on the blob: the blob is not decoded before the three comparisons.
\<close>

theorem verifyPayment_field_order:
  "(PaymentPayload.asset p \<noteq> PaymentDetails.asset r \<longrightarrow>
      verifyPayment rt p r = Inl (Error ''Asset mismatch''))
   \<and> (PaymentPayload.asset p = PaymentDetails.asset r \<and>
      PaymentPayload.payTo p \<noteq> PaymentDetails.payTo r \<longrightarrow>
      verifyPayment rt p r = Inl (Error ''Recipient mismatch''))
   \<and> (PaymentPayload.asset p = PaymentDetails.asset r \<and>
      PaymentPayload.payTo p = PaymentDetails.payTo r \<and>
      PaymentPayload.network p \<noteq> PaymentDetails.network r \<longrightarrow>
      verifyPayment rt p r = Inl (Error ''Network mismatch''))"
  by (simp add: verifyPayment_def)

theorem verifyPayment_field_order_witness:
  "verifyPayment demo_runtime ((payload_with ''garbage'')\<lparr>PaymentPayload.asset := ''other''\<rparr>)
      (details_with ''1000'') = Inl (Error ''Asset mismatch'')
   \<and> verifyPayment demo_runtime ((payload_with ''garbage'')\<lparr>PaymentPayload.payTo := ''other''\<rparr>)
      (details_with ''1000'') = Inl (Error ''Recipient mismatch'')
   \<and> verifyPayment demo_runtime ((payload_with ''garbage'')\<lparr>PaymentPayload.network := ''mainnet''\<rparr>)
      (details_with ''1000'') = Inl (Error ''Network mismatch'')"
  using
    verifyPayment_field_order [of "(payload_with ''garbage'')\<lparr>PaymentPayload.asset := ''other''\<rparr>"
      "details_with ''1000''" demo_runtime]
    verifyPayment_field_order [of "(payload_with ''garbage'')\<lparr>PaymentPayload.payTo := ''other''\<rparr>"
      "details_with ''1000''" demo_runtime]
    verifyPayment_field_order [of "(payload_with ''garbage'')\<lparr>PaymentPayload.network := ''mainnet''\<rparr>"
      "details_with ''1000''" demo_runtime]
  by (simp add: payload_with_def details_with_def)

section \<open>Exact amounts\<close>

text \<open>
  C1. Take a payload whose three fields match the requirements and whose blob decodes
  to an authorization aimed at the asset; let the required amount convert to the integer
  \<open>A\<close>, let the loop over the actions complete, and let the transfer to the recipient
  (the last one, if there are several) have the amount \<open>A'\<close>. Then verification
  succeeds if and only if \<open>A' = A\<close> as integers, it returns the decoded authorization
  when it succeeds, and every other amount, \<open>A + 1\<close> and \<open>A - 1\<close> among them, gives
  the error Amount mismatch.
\<close>

theorem verifyPayment_exact_amount:
  assumes "PaymentPayload.asset p = PaymentDetails.asset r"
    and "PaymentPayload.payTo p = PaymentDetails.payTo r"
    and "PaymentPayload.network p = PaymentDetails.network r"
    and "decodeSignedDelegateAction rt (Some (JStr (delegateB64 p))) = Inr d"
    and "receiverId (delegateAction (signedDelegate d)) = PaymentDetails.asset r"
    and "BigInt rt (Some (JStr (PaymentDetails.amountExactAtomic r))) = Inr A"
    and "acts = actions (delegateAction (signedDelegate d))"
    and "\<forall>a \<in> set acts. \<not> isl (scan_action rt (PaymentDetails.payTo r) None a)"
    and "filter (transfer_to rt (PaymentDetails.payTo r)) acts \<noteq> []"
    and "transfer_amount rt (last (filter (transfer_to rt (PaymentDetails.payTo r)) acts)) = Inr A'"
  shows "((\<exists>d'. verifyPayment rt p r = Inr d') \<longleftrightarrow> A' = A)
       \<and> (A' = A \<longrightarrow> verifyPayment rt p r = Inr d)
       \<and> (A' \<noteq> A \<longrightarrow> verifyPayment rt p r = Inl (Error ''Amount mismatch''))
       \<and> (A' = A + 1 \<or> A' = A - 1 \<longrightarrow> verifyPayment rt p r = Inl (Error ''Amount mismatch''))"
proof -
  let ?ms = "filter (transfer_to rt (PaymentDetails.payTo r)) acts"
  from assms(9) obtain m ms where ms: "?ms = m # ms" by (cases ?ms) auto
  have scan: "scan_actions rt (PaymentDetails.payTo r) None acts = Inr (Some A')"
    using scan_actions_last [OF assms(8), of None] assms(10) ms by simp
  have "verifyPayment rt p r = (if A' = A then Inr d else Inl (Error ''Amount mismatch''))"
    using verifyPayment_after_checks [OF assms(1-5)] assms(6) scan
    unfolding assms(7) [symmetric] by auto
  then show ?thesis by auto
qed

theorem verifyPayment_exact_amount_witness:
  "verifyPayment demo_runtime (payload_with ''pay1000'') (details_with ''1000'') =
     Inr (delegate_with [FunctionCall ''ft_transfer'' (transfer_text ''seller'' ''1000'')])
   \<and> verifyPayment demo_runtime (payload_with ''pay999'') (details_with ''1000'') =
     Inl (Error ''Amount mismatch'')"
proof -
  let ?a1 = "[FunctionCall ''ft_transfer'' (transfer_text ''seller'' ''1000'')]"
  let ?a2 = "[FunctionCall ''ft_transfer'' (transfer_text ''seller'' ''999'')]"
  have req: "BigInt demo_runtime (Some (JStr (PaymentDetails.amountExactAtomic (details_with ''1000'')))) = Inr 1000"
    by (simp add: demo_defs js_defs)
  have seller: "PaymentDetails.payTo (details_with ''1000'') = ''seller''"
    by (simp add: details_with_def)
  have acts: "as = actions (delegateAction (signedDelegate (delegate_with as)))" for as
    by (simp add: delegate_with_def)
  have d1: "decodeSignedDelegateAction demo_runtime (Some (JStr (delegateB64 (payload_with ''pay1000'')))) =
      Inr (delegate_with ?a1)"
    by (simp add: demo_defs)
  have c1: "\<forall>x \<in> set ?a1. \<not> isl (scan_action demo_runtime (PaymentDetails.payTo (details_with ''1000'')) None x)"
    by (simp add: seller demo_defs js_defs)
  have n1: "filter (transfer_to demo_runtime (PaymentDetails.payTo (details_with ''1000''))) ?a1 \<noteq> []"
    by (simp add: seller demo_defs js_defs)
  have m1: "transfer_amount demo_runtime
      (last (filter (transfer_to demo_runtime (PaymentDetails.payTo (details_with ''1000''))) ?a1)) = Inr 1000"
    by (simp add: seller demo_defs js_defs)
  have d2: "decodeSignedDelegateAction demo_runtime (Some (JStr (delegateB64 (payload_with ''pay999'')))) =
      Inr (delegate_with ?a2)"
    by (simp add: demo_defs)
  have c2: "\<forall>x \<in> set ?a2. \<not> isl (scan_action demo_runtime (PaymentDetails.payTo (details_with ''1000'')) None x)"
    by (simp add: seller demo_defs js_defs)
  have n2: "filter (transfer_to demo_runtime (PaymentDetails.payTo (details_with ''1000''))) ?a2 \<noteq> []"
    by (simp add: seller demo_defs js_defs)
  have m2: "transfer_amount demo_runtime
      (last (filter (transfer_to demo_runtime (PaymentDetails.payTo (details_with ''1000''))) ?a2)) = Inr 999"
    by (simp add: seller demo_defs js_defs)
  show ?thesis
    using verifyPayment_exact_amount [OF demo_fields(1-3) d1 demo_fields(4) req acts c1 n1 m1]
      verifyPayment_exact_amount [OF demo_fields(1-3) d2 demo_fields(4) req acts c2 n2 m2]
    by simp
qed

section \<open>The last matching transfer\<close>

text \<open>
  C3. The scan runs over the whole sequence of actions. When the loop completes (no
  action makes it throw) and two or more actions are transfers to the recipient, the
  amount it leaves in \<^verbatim>\<open>foundAmount\<close> is the amount of the last of them in sequence
  order, and this is the amount that verification compares with the required one.
\<close>

theorem verifyPayment_last_transfer_wins:
  assumes "PaymentPayload.asset p = PaymentDetails.asset r"
    and "PaymentPayload.payTo p = PaymentDetails.payTo r"
    and "PaymentPayload.network p = PaymentDetails.network r"
    and "decodeSignedDelegateAction rt (Some (JStr (delegateB64 p))) = Inr d"
    and "receiverId (delegateAction (signedDelegate d)) = PaymentDetails.asset r"
    and "BigInt rt (Some (JStr (PaymentDetails.amountExactAtomic r))) = Inr A"
    and "acts = actions (delegateAction (signedDelegate d))"
    and "\<forall>a \<in> set acts. \<not> isl (scan_action rt (PaymentDetails.payTo r) None a)"
    and "2 \<le> length (filter (transfer_to rt (PaymentDetails.payTo r)) acts)"
  shows "\<exists>n. transfer_amount rt (last (filter (transfer_to rt (PaymentDetails.payTo r)) acts)) = Inr n
           \<and> scan_actions rt (PaymentDetails.payTo r) None acts = Inr (Some n)
           \<and> verifyPayment rt p r = (if n = A then Inr d else Inl (Error ''Amount mismatch''))"
proof -
  let ?ms = "filter (transfer_to rt (PaymentDetails.payTo r)) acts"
  from assms(9) have ne: "?ms \<noteq> []" by auto
  from scan_matched_amount [OF assms(8) ne]
  obtain n where n: "transfer_amount rt (last ?ms) = Inr n"
    by (cases "transfer_amount rt (last ?ms)") auto
  from ne obtain m ms where ms: "?ms = m # ms" by (cases ?ms) auto
  have scan: "scan_actions rt (PaymentDetails.payTo r) None acts = Inr (Some n)"
    using scan_actions_last [OF assms(8), of None] n ms by simp
  have "verifyPayment rt p r = (if n = A then Inr d else Inl (Error ''Amount mismatch''))"
    using verifyPayment_after_checks [OF assms(1-5)] assms(6) scan
    unfolding assms(7) [symmetric] by auto
  with n scan show ?thesis by blast
qed


theorem verifyPayment_last_transfer_wins_witness:
  "transfer_amount demo_runtime (last (filter (transfer_to demo_runtime ''seller'') five_then_seven)) = Inr 7
   \<and> verifyPayment demo_runtime (payload_with ''pay5then7'') (details_with ''7'') =
       Inr (delegate_with five_then_seven)
   \<and> verifyPayment demo_runtime (payload_with ''pay5then7'') (details_with ''5'') =
       Inl (Error ''Amount mismatch'')"
proof -
  let ?d = "delegate_with five_then_seven"
  have dec: "decodeSignedDelegateAction demo_runtime (Some (JStr (delegateB64 (payload_with ''pay5then7'')))) = Inr ?d"
    by (simp add: demo_defs)
  have acts: "five_then_seven = actions (delegateAction (signedDelegate ?d))"
    by (simp add: delegate_with_def)
  have seller: "PaymentDetails.payTo (details_with a) = ''seller''" for a
    by (simp add: details_with_def)
  have complete: "\<forall>x \<in> set five_then_seven. \<not> isl (scan_action demo_runtime (PaymentDetails.payTo (details_with a)) None x)" for a
    by (simp add: seller demo_defs js_defs)
  have many: "2 \<le> length (filter (transfer_to demo_runtime (PaymentDetails.payTo (details_with a))) five_then_seven)" for a
    by (simp add: seller demo_defs js_defs)
  have last7: "transfer_amount demo_runtime (last (filter (transfer_to demo_runtime ''seller'') five_then_seven)) = Inr 7"
    by (simp add: demo_defs js_defs)
  have r7: "BigInt demo_runtime (Some (JStr (PaymentDetails.amountExactAtomic (details_with ''7'')))) = Inr 7"
    by (simp add: demo_defs js_defs)
  have r5: "BigInt demo_runtime (Some (JStr (PaymentDetails.amountExactAtomic (details_with ''5'')))) = Inr 5"
    by (simp add: demo_defs js_defs)
  show ?thesis
    using verifyPayment_last_transfer_wins [OF demo_fields(1-3) dec demo_fields(4) r7 acts complete many]
      verifyPayment_last_transfer_wins [OF demo_fields(1-3) dec demo_fields(4) r5 acts complete many]
      last7
    by (auto simp: seller)
qed

section \<open>A transfer without amount\<close>

text \<open>
  C9. When the last transfer to the recipient has parsed arguments without an amount
  field, or with the empty string as amount, the observed amount is 0: the arguments are
  not rejected, and the scan does not end without a match. Verification then succeeds
  when the required amount parses to the integer 0 and gives Amount mismatch when it
  parses to another integer; a required amount that is no integer literal gives the
  exception of its conversion, which is raised before the scan.
\<close>

theorem verifyPayment_missing_amount:
  assumes "PaymentPayload.asset p = PaymentDetails.asset r"
    and "PaymentPayload.payTo p = PaymentDetails.payTo r"
    and "PaymentPayload.network p = PaymentDetails.network r"
    and "decodeSignedDelegateAction rt (Some (JStr (delegateB64 p))) = Inr d"
    and "receiverId (delegateAction (signedDelegate d)) = PaymentDetails.asset r"
    and "acts = actions (delegateAction (signedDelegate d))"
    and "\<forall>a \<in> set acts. \<not> isl (scan_action rt (PaymentDetails.payTo r) None a)"
    and "filter (transfer_to rt (PaymentDetails.payTo r)) acts \<noteq> []"
    and "last (filter (transfer_to rt (PaymentDetails.payTo r)) acts) = FunctionCall m a"
    and "JSON_parse_utf8 rt a = Inr parsed"
    and "get_prop (Some parsed) ''amount'' = Inr None
         \<or> get_prop (Some parsed) ''amount'' = Inr (Some (JStr []))"
  shows "scan_actions rt (PaymentDetails.payTo r) None acts = Inr (Some 0)
       \<and> verifyPayment rt p r =
           (case BigInt rt (Some (JStr (PaymentDetails.amountExactAtomic r))) of
              Inl e \<Rightarrow> Inl e
            | Inr A \<Rightarrow> if A = 0 then Inr d else Inl (Error ''Amount mismatch''))"
proof -
  let ?ms = "filter (transfer_to rt (PaymentDetails.payTo r)) acts"
  have amt: "transfer_amount rt (last ?ms) = Inr 0"
    using assms(9-11) BigInt_zero [of rt] by (auto simp: amount_of_def or_else_def)
  from assms(8) obtain x xs where ms: "?ms = x # xs" by (cases ?ms) auto
  have scan: "scan_actions rt (PaymentDetails.payTo r) None acts = Inr (Some 0)"
    using scan_actions_last [OF assms(7), of None] amt ms by simp
  have "verifyPayment rt p r =
           (case BigInt rt (Some (JStr (PaymentDetails.amountExactAtomic r))) of
              Inl e \<Rightarrow> Inl e
            | Inr A \<Rightarrow> if A = 0 then Inr d else Inl (Error ''Amount mismatch''))"
    using verifyPayment_after_checks [OF assms(1-5)] scan
    unfolding assms(6) [symmetric] by (auto split: sum.splits)
  with scan show ?thesis by simp
qed

text \<open>
  C9 states the condition as the required amount being the string 0. It need not be:
  the string 00 also converts to 0 and verifies, and a required amount that does not
  convert gives a SyntaxError, not Amount mismatch.
\<close>

theorem verifyPayment_missing_amount_counterexample:
  "PaymentDetails.amountExactAtomic (details_with ''00'') \<noteq> ''0''
   \<and> verifyPayment demo_runtime (payload_with ''paybare'') (details_with ''00'') =
       Inr (delegate_with [FunctionCall ''ft_transfer'' (bare_text ''seller'')])
   \<and> verifyPayment demo_runtime (payload_with ''paybare'') (details_with ''abc'') = Inl SyntaxError"
  by (simp add: verifyPayment_def demo_defs js_defs)

theorem verifyPayment_missing_amount_witness:
  "verifyPayment demo_runtime (payload_with ''paybare'') (details_with ''0'') =
       Inr (delegate_with [FunctionCall ''ft_transfer'' (bare_text ''seller'')])
   \<and> verifyPayment demo_runtime (payload_with ''paybare'') (details_with ''1000'') =
       Inl (Error ''Amount mismatch'')"
proof -
  let ?acts = "[FunctionCall ''ft_transfer'' (bare_text ''seller'')]"
  let ?d = "delegate_with ?acts"
  have dec: "decodeSignedDelegateAction demo_runtime (Some (JStr (delegateB64 (payload_with ''paybare'')))) = Inr ?d"
    by (simp add: demo_defs)
  have acts: "?acts = actions (delegateAction (signedDelegate ?d))"
    by (simp add: delegate_with_def)
  have seller: "PaymentDetails.payTo (details_with a) = ''seller''" for a
    by (simp add: details_with_def)
  have complete: "\<forall>x \<in> set ?acts. \<not> isl (scan_action demo_runtime (PaymentDetails.payTo (details_with a)) None x)" for a
    by (simp add: seller demo_defs js_defs)
  have ne: "filter (transfer_to demo_runtime (PaymentDetails.payTo (details_with a))) ?acts \<noteq> []" for a
    by (simp add: seller demo_defs js_defs)
  have lst: "last (filter (transfer_to demo_runtime (PaymentDetails.payTo (details_with a))) ?acts) =
      FunctionCall ''ft_transfer'' (bare_text ''seller'')" for a
    by (simp add: seller demo_defs js_defs)
  have parsed: "JSON_parse_utf8 demo_runtime (bare_text ''seller'') = Inr (JObj [(''receiver_id'', JStr ''seller'')])"
    by (simp add: demo_defs)
  have none: "get_prop (Some (JObj [(''receiver_id'', JStr ''seller'')])) ''amount'' = Inr None
     \<or> get_prop (Some (JObj [(''receiver_id'', JStr ''seller'')])) ''amount'' = Inr (Some (JStr []))"
    by simp
  have r0: "BigInt demo_runtime (Some (JStr (PaymentDetails.amountExactAtomic (details_with ''0'')))) = Inr 0"
    by (simp add: demo_defs js_defs)
  have r1000: "BigInt demo_runtime (Some (JStr (PaymentDetails.amountExactAtomic (details_with ''1000'')))) = Inr 1000"
    by (simp add: demo_defs js_defs)
  show ?thesis
    using verifyPayment_missing_amount [OF demo_fields(1-3) dec demo_fields(4) acts complete ne lst parsed none, of "''0''"]
      verifyPayment_missing_amount [OF demo_fields(1-3) dec demo_fields(4) acts complete ne lst parsed none, of "''1000''"]
      r0 r1000
    by simp
qed

section \<open>Signs of amounts\<close>

text \<open>
  C6 states that a negative amount string is never accepted. The conversion accepts a
  leading minus sign, and nothing in the verification tests the sign: a transfer of the
  amount -5 verifies against the required amount -5.
\<close>

theorem verifyPayment_negative_counterexample:
  "BigInt demo_runtime (Some (JStr ''-5'')) = Inr (- 5)
   \<and> verifyPayment demo_runtime (payload_with ''payminus5'') (details_with ''-5'') =
       Inr (delegate_with [FunctionCall ''ft_transfer'' (transfer_text ''seller'' ''-5'')])"
  by (simp add: verifyPayment_def demo_defs js_defs)

text \<open>
  C6, as the code has it. Both amounts are converted to unbounded integers of either
  sign, and whenever verification succeeds the observed amount is the same integer as
  the converted required amount. A negative observed amount is therefore accepted only
  against a required amount that converts to the same negative integer, and never
  against a non-negative one.
\<close>

theorem verifyPayment_accepts_equal_integers:
  assumes "verifyPayment rt p r = Inr d"
  shows "\<exists>A. BigInt rt (Some (JStr (PaymentDetails.amountExactAtomic r))) = Inr A
           \<and> scan_actions rt (PaymentDetails.payTo r) None
                (actions (delegateAction (signedDelegate d))) = Inr (Some A)"
  using assms
  by (auto simp: verifyPayment_def split: if_splits sum.splits option.splits)

theorem verifyPayment_accepts_equal_integers_witness:
  "BigInt demo_runtime (Some (JStr ''-5'')) = Inr (- 5)
   \<and> scan_actions demo_runtime ''seller'' None
        [FunctionCall ''ft_transfer'' (transfer_text ''seller'' ''-5'')] = Inr (Some (- 5))"
proof -
  have ok: "verifyPayment demo_runtime (payload_with ''payminus5'') (details_with ''-5'') =
       Inr (delegate_with [FunctionCall ''ft_transfer'' (transfer_text ''seller'' ''-5'')])"
    by (simp add: verifyPayment_def demo_defs js_defs)
  have b: "BigInt demo_runtime (Some (JStr ''-5'')) = Inr (- 5)"
    by (simp add: js_defs)
  from verifyPayment_accepts_equal_integers [OF ok] b
  show ?thesis
    by (simp add: details_with_def delegate_with_def)
qed


section \<open>The routes\<close>

lemma verifyPayment_decodes:
  "verifyPayment rt p r = Inr d \<Longrightarrow> decodeSignedDelegateAction rt (Some (JStr (delegateB64 p))) = Inr d"
  by (auto simp: verifyPayment_def split: if_splits sum.splits option.splits)

lemma PaymentPayload_parse_blob:
  "PaymentPayload_parse (Some (JObj kvs)) = Inr p \<Longrightarrow> delegateB64 p = the_string (map_of kvs ''delegateB64'')"
  by (auto split: if_splits)

lemma verify_route_cases:
  "verify_route rt b = (case verify_try rt b of
       Inr d \<Rightarrow> (200, Valid (senderId (delegateAction (signedDelegate d))))
     | Inl e \<Rightarrow> (400, Invalid e))"
  by (simp add: verify_route_def)

lemma verify_try_body:
  assumes "get_prop (Some j) ''paymentPayload'' = Inr pp"
  shows "verify_try rt (Inr j) =
     (case PaymentPayload_parse pp of
        Inl e \<Rightarrow> Inl e
      | Inr payment \<Rightarrow>
          (case get_prop (Some j) ''paymentDetails'' of
             Inl e \<Rightarrow> Inl e
           | Inr pd \<Rightarrow>
          (case PaymentDetails_parse pd of
             Inl e \<Rightarrow> Inl e
           | Inr required \<Rightarrow> verifyPayment rt payment required)))"
  using assms by (cases j) (auto simp: verify_try_def split: sum.splits)

lemma settle_route_decoded:
  assumes "get_prop (Some j) ''delegateB64'' = Inr bv"
    and "decodeSignedDelegateAction rt bv = Inr d"
    and "getRelayer env = Inr relayer"
  shows "snd (settle_route rt env submit (Inr j) l) =
           snd (submit relayer (env_or env ''RELAYER_ACCOUNT_ID'' []) d l)"
proof -
  from assms(3) have set: "\<not> unset env ''RELAYER_ACCOUNT_ID''"
    by (auto simp: getRelayer_def split: if_splits)
  show ?thesis
    using assms set
    by (cases "submit relayer (env_or env ''RELAYER_ACCOUNT_ID'' []) d l")
       (auto simp: settle_route_def settlePayment_def split: sum.splits prod.splits)
qed

lemma settle_route_changes:
  assumes "snd (settle_route rt env submit b l) \<noteq> l"
  shows "\<exists>j bv d relayer. b = Inr j \<and> get_prop (Some j) ''delegateB64'' = Inr bv
           \<and> decodeSignedDelegateAction rt bv = Inr d \<and> getRelayer env = Inr relayer
           \<and> snd (settle_route rt env submit b l) =
               snd (submit relayer (env_or env ''RELAYER_ACCOUNT_ID'' []) d l)"
proof (cases b)
  case (Inl e)
  with assms show ?thesis by (simp add: settle_route_def)
next
  case (Inr j)
  show ?thesis
  proof (cases "get_prop (Some j) ''delegateB64''")
    case (Inl e)
    with Inr assms show ?thesis by (simp add: settle_route_def)
  next
    case bv: (Inr bv)
    show ?thesis
    proof (cases "decodeSignedDelegateAction rt bv")
      case (Inl e)
      with Inr bv assms show ?thesis by (simp add: settle_route_def)
    next
      case d: (Inr d)
      show ?thesis
      proof (cases "getRelayer env")
        case (Inl e)
        with Inr bv d assms show ?thesis
          by (simp add: settle_route_def settlePayment_def)
      next
        case r: (Inr relayer)
        from settle_route_decoded [OF bv d r, of submit l] Inr bv d r
        show ?thesis by blast
      qed
    qed
  qed
qed

lemma facilitator_settle_ledger:
  "snd (facilitator rt env submit (PostSettle b) l) = snd (settle_route rt env submit b l)"
  by (simp split: prod.splits)

section \<open>A blob that does not decode\<close>

text \<open>
  C4. Let the decoder throw \<open>e\<close> on a blob. A settle request that carries the blob
  is answered with status 400 and the body \<^verbatim>\<open>{ok: false, error}\<close> made from \<open>e\<close>, and
  the ledger is left as it was. A verify request whose payload carries the blob is
  answered with status 400 and a body \<^verbatim>\<open>{valid: false, error}\<close> in every case, and the
  error is \<open>e\<close> when the request has passed what precedes the decoding: the two schemas
  and the comparison of asset, recipient and network. Both routes are total functions
  into replies: no exception leaves a handler.
\<close>

theorem undecodable_blob_rejected:
  assumes "decodeSignedDelegateAction rt (Some (JStr blob)) = Inl e"
  shows "(get_prop (Some j) ''delegateB64'' = Inr (Some (JStr blob)) \<longrightarrow>
            settle_route rt env submit (Inr j) l = ((400, NotSettled e), l))
       \<and> (get_prop (Some j) ''paymentPayload'' = Inr (Some (JObj kvs)) \<and>
          map_of kvs ''delegateB64'' = Some (JStr blob) \<longrightarrow>
            (\<exists>err. verify_route rt (Inr j) = (400, Invalid err)))
       \<and> (get_prop (Some j) ''paymentPayload'' = Inr (Some (JObj kvs)) \<and>
          map_of kvs ''delegateB64'' = Some (JStr blob) \<and>
          PaymentPayload_parse (Some (JObj kvs)) = Inr p \<and>
          get_prop (Some j) ''paymentDetails'' = Inr pd \<and>
          PaymentDetails_parse pd = Inr r \<and>
          PaymentPayload.asset p = PaymentDetails.asset r \<and>
          PaymentPayload.payTo p = PaymentDetails.payTo r \<and>
          PaymentPayload.network p = PaymentDetails.network r \<longrightarrow>
            verify_route rt (Inr j) = (400, Invalid e))"
proof (intro conjI impI)
  assume "get_prop (Some j) ''delegateB64'' = Inr (Some (JStr blob))"
  with assms show "settle_route rt env submit (Inr j) l = ((400, NotSettled e), l)"
    by (simp add: settle_route_def)
next
  assume a: "get_prop (Some j) ''paymentPayload'' = Inr (Some (JObj kvs)) \<and>
          map_of kvs ''delegateB64'' = Some (JStr blob)"
  show "\<exists>err. verify_route rt (Inr j) = (400, Invalid err)"
  proof (cases "verify_try rt (Inr j)")
    case (Inl err)
    then show ?thesis by (simp add: verify_route_def)
  next
    case (Inr d)
    with a obtain p r where p: "PaymentPayload_parse (Some (JObj kvs)) = Inr p"
      and v: "verifyPayment rt p r = Inr d"
      by (auto simp: verify_try_body split: sum.splits)
    from PaymentPayload_parse_blob [OF p] a have "delegateB64 p = blob" by simp
    with verifyPayment_decodes [OF v] assms show ?thesis by simp
  qed
next
  assume a: "get_prop (Some j) ''paymentPayload'' = Inr (Some (JObj kvs)) \<and>
          map_of kvs ''delegateB64'' = Some (JStr blob) \<and>
          PaymentPayload_parse (Some (JObj kvs)) = Inr p \<and>
          get_prop (Some j) ''paymentDetails'' = Inr pd \<and>
          PaymentDetails_parse pd = Inr r \<and>
          PaymentPayload.asset p = PaymentDetails.asset r \<and>
          PaymentPayload.payTo p = PaymentDetails.payTo r \<and>
          PaymentPayload.network p = PaymentDetails.network r"
  then have b: "delegateB64 p = blob"
    using PaymentPayload_parse_blob [of kvs p] by simp
  have "verifyPayment rt p r = Inl e"
    using a assms b by (simp add: verifyPayment_def)
  with a show "verify_route rt (Inr j) = (400, Invalid e)"
    by (simp add: verify_route_def verify_try_body)
qed

theorem undecodable_blob_rejected_witness:
  "settle_route demo_runtime demo_env demo_submit (Inr (settle_request ''garbage'')) [] =
      ((400, NotSettled (Error ''Failed to decode signed delegate action'')), [])
   \<and> verify_route demo_runtime (Inr (verify_request (payload_fields ''garbage'') (details_fields ''1000''))) =
      (400, Invalid (Error ''Failed to decode signed delegate action''))"
proof -
  have bad: "decodeSignedDelegateAction demo_runtime (Some (JStr ''garbage'')) =
      Inl (Error ''Failed to decode signed delegate action'')"
    by (simp add: demo_defs)
  have s: "get_prop (Some (settle_request ''garbage'')) ''delegateB64'' = Inr (Some (JStr ''garbage''))"
    by (simp add: route_defs)
  have v: "get_prop (Some (verify_request (payload_fields ''garbage'') (details_fields ''1000''))) ''paymentPayload'' =
        Inr (Some (JObj (payload_fields ''garbage''))) \<and>
      map_of (payload_fields ''garbage'') ''delegateB64'' = Some (JStr ''garbage'') \<and>
      PaymentPayload_parse (Some (JObj (payload_fields ''garbage''))) = Inr (payload_with ''garbage'') \<and>
      get_prop (Some (verify_request (payload_fields ''garbage'') (details_fields ''1000''))) ''paymentDetails'' =
        Inr (Some (JObj (details_fields ''1000''))) \<and>
      PaymentDetails_parse (Some (JObj (details_fields ''1000''))) = Inr (details_with ''1000'') \<and>
      PaymentPayload.asset (payload_with ''garbage'') = PaymentDetails.asset (details_with ''1000'') \<and>
      PaymentPayload.payTo (payload_with ''garbage'') = PaymentDetails.payTo (details_with ''1000'') \<and>
      PaymentPayload.network (payload_with ''garbage'') = PaymentDetails.network (details_with ''1000'')"
    by (simp add: route_defs payload_with_def details_with_def PaymentPayload_issues_def
        PaymentDetails_issues_def issue_def)
  from undecodable_blob_rejected [OF bad, of "settle_request ''garbage''" demo_env demo_submit "[]"] s
  have one: "settle_route demo_runtime demo_env demo_submit (Inr (settle_request ''garbage'')) [] =
      ((400, NotSettled (Error ''Failed to decode signed delegate action'')), [])"
    by blast
  from undecodable_blob_rejected [OF bad,
      where j = "verify_request (payload_fields ''garbage'') (details_fields ''1000'')"
        and kvs = "payload_fields ''garbage''" and p = "payload_with ''garbage''"
        and pd = "Some (JObj (details_fields ''1000''))" and r = "details_with ''1000''"
        and env = demo_env and submit = demo_submit and l = "[]"] v
  have two: "verify_route demo_runtime (Inr (verify_request (payload_fields ''garbage'') (details_fields ''1000''))) =
      (400, Invalid (Error ''Failed to decode signed delegate action''))"
    by blast
  from one two show ?thesis by simp
qed

section \<open>The schemas come first\<close>

text \<open>
  C10. A verify request whose payload has a scheme other than the literal
  near-delegate-exact, or lacks one of the required fields, is answered with status 400
  and the schema error of the payload, for every runtime and whatever the other fields
  hold: the asset, recipient and network are not compared. With a well-formed payload,
  the same holds of the details: a wrong scheme literal or a missing required field is
  answered with status 400 and the schema error of the details.
\<close>

theorem schema_rejects_first:
  assumes "get_prop (Some j) ''paymentPayload'' = Inr (Some (JObj kvs))"
    and "get_prop (Some j) ''paymentDetails'' = Inr (Some (JObj dkvs))"
  shows "(map_of kvs ''scheme'' \<noteq> Some (JStr ''near-delegate-exact'')
            \<or> map_of kvs ''network'' = None \<or> map_of kvs ''asset'' = None
            \<or> map_of kvs ''payTo'' = None \<or> map_of kvs ''delegateB64'' = None \<longrightarrow>
          PaymentPayload_issues kvs \<noteq> [] \<and>
          verify_route rt (Inr j) = (400, Invalid (ZodError (PaymentPayload_issues kvs))))
       \<and> (PaymentPayload_issues kvs = [] \<and>
          (map_of dkvs ''scheme'' \<noteq> Some (JStr ''near-delegate-exact'')
            \<or> map_of dkvs ''network'' = None \<or> map_of dkvs ''asset'' = None
            \<or> map_of dkvs ''payTo'' = None \<or> map_of dkvs ''amountExactAtomic'' = None) \<longrightarrow>
          PaymentDetails_issues dkvs \<noteq> [] \<and>
          verify_route rt (Inr j) = (400, Invalid (ZodError (PaymentDetails_issues dkvs))))"
proof (intro conjI impI)
  assume bad: "map_of kvs ''scheme'' \<noteq> Some (JStr ''near-delegate-exact'')
            \<or> map_of kvs ''network'' = None \<or> map_of kvs ''asset'' = None
            \<or> map_of kvs ''payTo'' = None \<or> map_of kvs ''delegateB64'' = None"
  have lit: "z_literal l v \<longleftrightarrow> v = Some (JStr l)" for l v
    by (cases "(l, v)" rule: z_literal.cases) auto
  show ne: "PaymentPayload_issues kvs \<noteq> []"
    using bad by (auto simp: PaymentPayload_issues_def issue_def lit)
  then show "verify_route rt (Inr j) = (400, Invalid (ZodError (PaymentPayload_issues kvs)))"
    using assms(1) by (simp add: verify_route_def verify_try_body)
next
  assume bad: "PaymentPayload_issues kvs = [] \<and>
          (map_of dkvs ''scheme'' \<noteq> Some (JStr ''near-delegate-exact'')
            \<or> map_of dkvs ''network'' = None \<or> map_of dkvs ''asset'' = None
            \<or> map_of dkvs ''payTo'' = None \<or> map_of dkvs ''amountExactAtomic'' = None)"
  have lit: "z_literal l v \<longleftrightarrow> v = Some (JStr l)" for l v
    by (cases "(l, v)" rule: z_literal.cases) auto
  show ne: "PaymentDetails_issues dkvs \<noteq> []"
    using bad by (auto simp: PaymentDetails_issues_def issue_def lit)
  then show "verify_route rt (Inr j) = (400, Invalid (ZodError (PaymentDetails_issues dkvs)))"
    using assms bad by (simp add: verify_route_def verify_try_body)
qed

theorem schema_rejects_first_witness:
  "verify_route demo_runtime
      (Inr (verify_request ((''scheme'', JStr ''exact'') # payload_fields ''pay1000'')
              ((''asset'', JStr ''other'') # details_fields ''1000''))) =
      (400, Invalid (ZodError [''scheme'']))
   \<and> verify_route demo_runtime
      (Inr (verify_request (payload_fields ''pay1000'')
              [(''scheme'', JStr ''near-delegate-exact''), (''network'', JStr ''testnet''),
               (''asset'', JStr ''tok''), (''payTo'', JStr ''seller'')])) =
      (400, Invalid (ZodError [''amountExactAtomic'']))"
proof -
  let ?k1 = "(''scheme'', JStr ''exact'') # payload_fields ''pay1000''"
  let ?d1 = "(''asset'', JStr ''other'') # details_fields ''1000''"
  let ?k2 = "payload_fields ''pay1000''"
  let ?d2 = "[(''scheme'', JStr ''near-delegate-exact''), (''network'', JStr ''testnet''),
               (''asset'', JStr ''tok''), (''payTo'', JStr ''seller'')]"
  have p: "get_prop (Some (verify_request k d)) ''paymentPayload'' = Inr (Some (JObj k))"
    and d: "get_prop (Some (verify_request k d)) ''paymentDetails'' = Inr (Some (JObj d))" for k d
    by (simp_all add: verify_request_def)
  have i1: "PaymentPayload_issues ?k1 = [''scheme'']"
    by (simp add: PaymentPayload_issues_def issue_def payload_fields_def)
  have i2: "PaymentPayload_issues ?k2 = []"
    by (simp add: PaymentPayload_issues_def issue_def payload_fields_def)
  have i3: "PaymentDetails_issues ?d2 = [''amountExactAtomic'']"
    by (simp add: PaymentDetails_issues_def issue_def)
  have b1: "map_of ?k1 ''scheme'' \<noteq> Some (JStr ''near-delegate-exact'')"
    by simp
  have b2: "map_of ?d2 ''amountExactAtomic'' = None"
    by simp
  show ?thesis
    using schema_rejects_first [where j = "verify_request ?k1 ?d1" and kvs = ?k1 and dkvs = ?d1
          and rt = demo_runtime, OF p d]
      schema_rejects_first [where j = "verify_request ?k2 ?d2" and kvs = ?k2 and dkvs = ?d2
          and rt = demo_runtime, OF p d] i1 i2 i3 b1 b2
    by simp
qed

section \<open>Only settlement touches the ledger\<close>

text \<open>
  C8. A verify request leaves the ledger as it was, whether it succeeds or fails, and
  its reply depends neither on the ledger nor on the submit operation. A settle request
  whose blob decodes, with the relayer configured, leaves the ledger in the state that
  submitting the decoded authorization produces. Whenever a request changes the ledger,
  it is such a settle request.
\<close>

theorem verify_leaves_ledger:
  "snd (facilitator rt env submit (PostVerify b) l) = l
   \<and> fst (facilitator rt env submit (PostVerify b) l) = fst (facilitator rt env submit' (PostVerify b) l')
   \<and> (get_prop (Some j) ''delegateB64'' = Inr bv \<and> decodeSignedDelegateAction rt bv = Inr d
        \<and> getRelayer env = Inr relayer \<longrightarrow>
      snd (facilitator rt env submit (PostSettle (Inr j)) l) =
        snd (submit relayer (env_or env ''RELAYER_ACCOUNT_ID'' []) d l))
   \<and> (snd (facilitator rt env submit req l) \<noteq> l \<longrightarrow>
        (\<exists>j' bv' d' relayer'. req = PostSettle (Inr j')
           \<and> get_prop (Some j') ''delegateB64'' = Inr bv'
           \<and> decodeSignedDelegateAction rt bv' = Inr d'
           \<and> getRelayer env = Inr relayer'
           \<and> snd (facilitator rt env submit req l) =
               snd (submit relayer' (env_or env ''RELAYER_ACCOUNT_ID'' []) d' l)))"
proof (intro conjI impI)
  show "snd (facilitator rt env submit (PostVerify b) l) = l"
    by (simp split: prod.splits)
  show "fst (facilitator rt env submit (PostVerify b) l) = fst (facilitator rt env submit' (PostVerify b) l')"
    by (simp split: prod.splits)
next
  assume a: "get_prop (Some j) ''delegateB64'' = Inr bv \<and> decodeSignedDelegateAction rt bv = Inr d
        \<and> getRelayer env = Inr relayer"
  then have g: "get_prop (Some j) ''delegateB64'' = Inr bv"
    and d: "decodeSignedDelegateAction rt bv = Inr d"
    and r: "getRelayer env = Inr relayer"
    by simp_all
  have "snd (settle_route rt env submit (Inr j) l) =
           snd (submit relayer (env_or env ''RELAYER_ACCOUNT_ID'' []) d l)"
    by (rule settle_route_decoded [OF g d r])
  then show "snd (facilitator rt env submit (PostSettle (Inr j)) l) =
        snd (submit relayer (env_or env ''RELAYER_ACCOUNT_ID'' []) d l)"
    by (simp only: facilitator_settle_ledger)
next
  assume ch: "snd (facilitator rt env submit req l) \<noteq> l"
  show "\<exists>j' bv' d' relayer'. req = PostSettle (Inr j')
           \<and> get_prop (Some j') ''delegateB64'' = Inr bv'
           \<and> decodeSignedDelegateAction rt bv' = Inr d'
           \<and> getRelayer env = Inr relayer'
           \<and> snd (facilitator rt env submit req l) =
               snd (submit relayer' (env_or env ''RELAYER_ACCOUNT_ID'' []) d' l)"
  proof (cases req)
    case (PostVerify b)
    with ch show ?thesis by (simp split: prod.splits)
  next
    case (PostSettle b)
    have eq: "snd (facilitator rt env submit (PostSettle b) l) = snd (settle_route rt env submit b l)"
      by (rule facilitator_settle_ledger)
    with ch PostSettle have "snd (settle_route rt env submit b l) \<noteq> l" by simp
    from settle_route_changes [OF this] PostSettle eq show ?thesis by auto
  qed
qed

theorem verify_leaves_ledger_witness:
  "facilitator demo_runtime demo_env demo_submit
      (PostVerify (Inr (verify_request (payload_fields ''pay1000'') (details_fields ''1000'')))) [] =
      ((200, VerifyReply (Valid ''buyer'')), [])
   \<and> snd (facilitator demo_runtime demo_env demo_submit (PostSettle (Inr (settle_request ''pay1000''))) []) =
      [delegate_with [FunctionCall ''ft_transfer'' (transfer_text ''seller'' ''1000'')]]"
proof -
  let ?d = "delegate_with [FunctionCall ''ft_transfer'' (transfer_text ''seller'' ''1000'')]"
  let ?v = "PostVerify (Inr (verify_request (payload_fields ''pay1000'') (details_fields ''1000'')))"
  have reply: "fst (facilitator demo_runtime demo_env demo_submit ?v []) = (200, VerifyReply (Valid ''buyer''))"
    by (simp add: verify_route_def verify_try_def verifyPayment_def route_defs demo_defs js_defs
        PaymentPayload_issues_def PaymentDetails_issues_def issue_def)
  have g: "get_prop (Some (settle_request ''pay1000'')) ''delegateB64'' = Inr (Some (JStr ''pay1000''))
      \<and> decodeSignedDelegateAction demo_runtime (Some (JStr ''pay1000'')) = Inr ?d
      \<and> getRelayer demo_env = Inr \<lparr>rpcUrl = ''https://rpc.testnet.near.org'', networkId = ''testnet'',
            privateKey = ''ed25519:key'', defaultSignerId = ''relayer''\<rparr>"
    by (simp add: route_defs demo_defs getRelayer_def unset_def env_or_def)
  from verify_leaves_ledger [where rt = demo_runtime and env = demo_env and submit = demo_submit
      and b = "Inr (verify_request (payload_fields ''pay1000'') (details_fields ''1000''))"
      and l = "[]" and j = "settle_request ''pay1000''" and bv = "Some (JStr ''pay1000'')" and d = ?d
      and relayer = "\<lparr>rpcUrl = ''https://rpc.testnet.near.org'', networkId = ''testnet'',
            privateKey = ''ed25519:key'', defaultSignerId = ''relayer''\<rparr>"
      and submit' = demo_submit and l' = "[]" and req = ?v] g reply
  show ?thesis
    by (simp add: prod_eq_iff demo_submit_def)
qed


section \<open>Paying for the resource\<close>

lemma pay_status: "status (fst (pay io env required h w)) = 200 \<or> status (fst (pay io env required h w)) = 402"
  by (auto simp: pay_def caught_def split: sum.splits prod.splits)

text \<open>
  C5. A request with a non-empty payment header is answered with status 200 or 402,
  never another one. When the header decodes and the verifier's reply has a falsy
  \<^verbatim>\<open>valid\<close>, the answer is 402 with the error PAYMENT_INVALID. When the reply is valid
  and the settler's reply has a falsy \<^verbatim>\<open>ok\<close>, the answer is 402 with the error
  PAYMENT_NOT_SETTLED. When the settler's reply has a truthy \<^verbatim>\<open>ok\<close>, the answer is
  200 with the weather report and the header \<^verbatim>\<open>x-payment-response\<close> holding the encoded
  settlement.
\<close>

theorem weather_payment_outcomes:
  assumes "x_payment = Some h" and "h \<noteq> []"
    and "required = hd (buildAccepts (price_text io) env url)"
  shows "(status (fst (get_weather io env url x_payment w)) = 200
            \<or> status (fst (get_weather io env url x_payment w)) = 402)
       \<and> (decode_x_payment io h = Inr payment
          \<and> post_verify io payment required w = (Inr verification, w1)
          \<and> get_prop (Some verification) ''valid'' = Inr valid \<and> \<not> truthy valid
          \<and> get_prop (Some verification) ''error'' = Inr reason \<longrightarrow>
            get_weather io env url x_payment w =
              (\<lparr>status = 402, headers = [],
                body = Failure ''PAYMENT_INVALID'' (Reported reason)\<rparr>, w1))
       \<and> (decode_x_payment io h = Inr payment
          \<and> post_verify io payment required w = (Inr verification, w1)
          \<and> get_prop (Some verification) ''valid'' = Inr valid \<and> truthy valid
          \<and> get_prop (Some payment) ''delegateB64'' = Inr b
          \<and> post_settle io b w1 = (Inr settlement, w2)
          \<and> get_prop (Some settlement) ''ok'' = Inr settled \<and> \<not> truthy settled
          \<and> get_prop (Some settlement) ''error'' = Inr reason \<longrightarrow>
            get_weather io env url x_payment w =
              (\<lparr>status = 402, headers = [],
                body = Failure ''PAYMENT_NOT_SETTLED'' (Reported reason)\<rparr>, w2))
       \<and> (decode_x_payment io h = Inr payment
          \<and> post_verify io payment required w = (Inr verification, w1)
          \<and> get_prop (Some verification) ''valid'' = Inr valid \<and> truthy valid
          \<and> get_prop (Some payment) ''delegateB64'' = Inr b
          \<and> post_settle io b w1 = (Inr settlement, w2)
          \<and> get_prop (Some settlement) ''ok'' = Inr settled \<and> truthy settled
          \<and> get_prop (Some settlement) ''txHash'' = Inr hash \<longrightarrow>
            get_weather io env url x_payment w =
              (\<lparr>status = 200,
                headers = [(''x-payment-response'', encode_receipt io settlement)],
                body = Delivered \<lparr>weather = ''sunny'', temperatureF = 70\<rparr>
                         \<lparr>Paid.asset = env_or env ''TOKEN_ACCOUNT_ID'' [],
                          amount = env_or env ''PRICE_ATOMIC'' ''1000'', tx = hash\<rparr>\<rparr>, w2))"
proof -
  have w: "get_weather io env url x_payment w = pay io env required h w"
    using assms by (simp add: get_weather_def)
  have amt: "AcceptsEntry.amountExactAtomic required = env_or env ''PRICE_ATOMIC'' ''1000''"
    using assms(3) by (simp add: buildAccepts_def)
  show ?thesis
    unfolding w
  proof (intro conjI impI)
    show "status (fst (pay io env required h w)) = 200 \<or> status (fst (pay io env required h w)) = 402"
      by (rule pay_status)
  qed (simp_all add: pay_def amt)
qed

theorem weather_payment_outcomes_witness:
  "fst (get_weather demo_io demo_env ''/weather'' (Some ''bad'') []) =
     \<lparr>status = 402, headers = [],
      body = Failure ''PAYMENT_INVALID'' (Reported (Some (JStr ''Amount mismatch'')))\<rparr>
   \<and> fst (get_weather demo_io demo_env ''/weather'' (Some ''late'') []) =
     \<lparr>status = 402, headers = [],
      body = Failure ''PAYMENT_NOT_SETTLED'' (Reported (Some (JStr ''expired'')))\<rparr>
   \<and> fst (get_weather demo_io demo_env ''/weather'' (Some ''good'') []) =
     \<lparr>status = 200, headers = [(''x-payment-response'', ''receipt'')],
      body = Delivered \<lparr>weather = ''sunny'', temperatureF = 70\<rparr>
               \<lparr>Paid.asset = ''tok'', amount = ''1000'', tx = Some (JStr ''tx1'')\<rparr>\<rparr>
   \<and> status (fst (get_weather demo_io demo_env ''/weather'' (Some ''junk'') [])) = 402"
proof -
  let ?req = "hd (buildAccepts (price_text demo_io) demo_env ''/weather'')"
  have bad: "decode_x_payment demo_io ''bad'' = Inr (JObj [(''delegateB64'', JStr ''bad'')])
      \<and> post_verify demo_io (JObj [(''delegateB64'', JStr ''bad'')]) ?req [] =
          (Inr (JObj [(''valid'', JBool False), (''error'', JStr ''Amount mismatch'')]), [''verify''])
      \<and> get_prop (Some (JObj [(''valid'', JBool False), (''error'', JStr ''Amount mismatch'')])) ''valid'' =
          Inr (Some (JBool False)) \<and> \<not> truthy (Some (JBool False))
      \<and> get_prop (Some (JObj [(''valid'', JBool False), (''error'', JStr ''Amount mismatch'')])) ''error'' =
          Inr (Some (JStr ''Amount mismatch''))"
    by (simp add: demo_io_def)
  have late: "decode_x_payment demo_io ''late'' = Inr (JObj [(''delegateB64'', JStr ''late'')])
      \<and> post_verify demo_io (JObj [(''delegateB64'', JStr ''late'')]) ?req [] =
          (Inr (JObj [(''valid'', JBool True), (''sender'', JStr ''buyer'')]), [''verify''])
      \<and> get_prop (Some (JObj [(''valid'', JBool True), (''sender'', JStr ''buyer'')])) ''valid'' =
          Inr (Some (JBool True)) \<and> truthy (Some (JBool True))
      \<and> get_prop (Some (JObj [(''delegateB64'', JStr ''late'')])) ''delegateB64'' = Inr (Some (JStr ''late''))
      \<and> post_settle demo_io (Some (JStr ''late'')) [''verify''] =
          (Inr (JObj [(''ok'', JBool False), (''error'', JStr ''expired'')]), [''verify'', ''settle''])
      \<and> get_prop (Some (JObj [(''ok'', JBool False), (''error'', JStr ''expired'')])) ''ok'' =
          Inr (Some (JBool False)) \<and> \<not> truthy (Some (JBool False))
      \<and> get_prop (Some (JObj [(''ok'', JBool False), (''error'', JStr ''expired'')])) ''error'' =
          Inr (Some (JStr ''expired''))"
    by (simp add: demo_io_def)
  have good: "decode_x_payment demo_io ''good'' = Inr (JObj [(''delegateB64'', JStr ''good'')])
      \<and> post_verify demo_io (JObj [(''delegateB64'', JStr ''good'')]) ?req [] =
          (Inr (JObj [(''valid'', JBool True), (''sender'', JStr ''buyer'')]), [''verify''])
      \<and> get_prop (Some (JObj [(''valid'', JBool True), (''sender'', JStr ''buyer'')])) ''valid'' =
          Inr (Some (JBool True)) \<and> truthy (Some (JBool True))
      \<and> get_prop (Some (JObj [(''delegateB64'', JStr ''good'')])) ''delegateB64'' = Inr (Some (JStr ''good''))
      \<and> post_settle demo_io (Some (JStr ''good'')) [''verify''] =
          (Inr (JObj [(''ok'', JBool True), (''txHash'', JStr ''tx1'')]), [''verify'', ''settle''])
      \<and> get_prop (Some (JObj [(''ok'', JBool True), (''txHash'', JStr ''tx1'')])) ''ok'' =
          Inr (Some (JBool True)) \<and> truthy (Some (JBool True))
      \<and> get_prop (Some (JObj [(''ok'', JBool True), (''txHash'', JStr ''tx1'')])) ''txHash'' =
          Inr (Some (JStr ''tx1''))"
    by (simp add: demo_io_def)
  have env: "env_or demo_env ''TOKEN_ACCOUNT_ID'' [] = ''tok''"
    "env_or demo_env ''PRICE_ATOMIC'' ''1000'' = ''1000''"
    by (simp_all add: demo_env_def env_or_def)
  have enc: "encode_receipt demo_io s = ''receipt''" for s
    by (simp add: demo_io_def)
  note inst = weather_payment_outcomes [where io = demo_io and env = demo_env and url = "''/weather''"
      and w = "[]" and required = ?req, OF refl _ refl]
  have one: "fst (get_weather demo_io demo_env ''/weather'' (Some ''bad'') []) =
     \<lparr>status = 402, headers = [],
      body = Failure ''PAYMENT_INVALID'' (Reported (Some (JStr ''Amount mismatch'')))\<rparr>"
    using inst [of "''bad''", THEN conjunct2, THEN conjunct1, rule_format, OF _ bad] by simp
  have two: "fst (get_weather demo_io demo_env ''/weather'' (Some ''late'') []) =
     \<lparr>status = 402, headers = [],
      body = Failure ''PAYMENT_NOT_SETTLED'' (Reported (Some (JStr ''expired'')))\<rparr>"
    using inst [of "''late''", THEN conjunct2, THEN conjunct2, THEN conjunct1, rule_format, OF _ late] by simp
  have three: "fst (get_weather demo_io demo_env ''/weather'' (Some ''good'') []) =
     \<lparr>status = 200, headers = [(''x-payment-response'', ''receipt'')],
      body = Delivered \<lparr>weather = ''sunny'', temperatureF = 70\<rparr>
               \<lparr>Paid.asset = ''tok'', amount = ''1000'', tx = Some (JStr ''tx1'')\<rparr>\<rparr>"
    using inst [of "''good''", THEN conjunct2, THEN conjunct2, THEN conjunct2, rule_format, OF _ good]
    by (simp add: env enc)
  have four: "status (fst (get_weather demo_io demo_env ''/weather'' (Some ''junk'') [])) = 402"
    by (simp add: get_weather_def pay_def caught_def demo_io_def)
  from one two three four show ?thesis by simp
qed

section \<open>Challenges\<close>

text \<open>
  C7. A request without payment header is answered with status 402, the message
  Payment Required, the entries \<^verbatim>\<open>buildAccepts(url)\<close> and a fresh invoice. The entries
  are a function of the configuration and the URL: two such answers for the same URL,
  in any two states of the world, have the same entries, status, headers and message,
  and can differ in the invoice only.
\<close>

theorem challenge_accepts_same:
  "fst (get_weather io env url None w) =
     \<lparr>status = 402, headers = [],
      body = PaymentRequired ''Payment Required'' (buildAccepts (price_text io) env url)
               (Invoice (fst (randomUUID io w)) (fst (Date_now io (snd (randomUUID io w)))))\<rparr>
   \<and> accepts (body (fst (get_weather io env url None w))) = buildAccepts (price_text io) env url
   \<and> accepts (body (fst (get_weather io env url None w))) = accepts (body (fst (get_weather io env url None w')))
   \<and> status (fst (get_weather io env url None w)) = status (fst (get_weather io env url None w'))
   \<and> headers (fst (get_weather io env url None w)) = headers (fst (get_weather io env url None w'))
   \<and> message (body (fst (get_weather io env url None w))) = message (body (fst (get_weather io env url None w')))"
  by (simp add: get_weather_def split: prod.splits)

theorem challenge_accepts_same_witness:
  "accepts (body (fst (get_weather demo_io demo_env ''/weather'' None []))) =
     accepts (body (fst (get_weather demo_io demo_env ''/weather'' None [''u'', ''t''])))
   \<and> invoice_of (body (fst (get_weather demo_io demo_env ''/weather'' None []))) \<noteq>
     invoice_of (body (fst (get_weather demo_io demo_env ''/weather'' None [''u'', ''t''])))"
proof -
  have same: "accepts (body (fst (get_weather demo_io demo_env ''/weather'' None []))) =
     accepts (body (fst (get_weather demo_io demo_env ''/weather'' None [''u'', ''t''])))"
    by (rule challenge_accepts_same [THEN conjunct2, THEN conjunct2, THEN conjunct1])
  have fresh: "invoice_of (body (fst (get_weather demo_io demo_env ''/weather'' None []))) \<noteq>
     invoice_of (body (fst (get_weather demo_io demo_env ''/weather'' None [''u'', ''t''])))"
    by (simp add: get_weather_def demo_io_def)
  from same fresh show ?thesis by (rule conjI)
qed

end
